theory Spec2Isabelle
  imports Complex_Main "HOL-Library.AList"
begin

section \<open>Pricing resolution with alias fallback\<close>

text \<open>
  The class \<open>PricingFetcher\<close> overrides \<open>getModelPricing\<close> of its base class
  \<open>LiteLLMPricingFetcher\<close>. The base class lives in another package; its lookup is
  taken as the parameter \<open>super\<close>. It may read and update the fetcher's private state
  (the catalog is acquired on first use), so it is a state transformer over an arbitrary
  state type \<open>'s\<close>, and it returns a \<open>Result\<close>: \<open>Inl\<close> is a failure, \<open>Inr None\<close> is
  a success carrying \<open>null\<close>, \<open>Inr (Some p)\<close> a success carrying a pricing record.

  What the method does besides returning is recorded as a list of events, in the order
  the source performs them: each call of the base lookup, each read of the alias table
  and each debug line.
\<close>

datatype pricing_event =
    SuperGetModelPricing string
  | AliasesGet string
  | LoggerDebug string

definition CLAUDE_MODEL_ALIASES_entries :: "(string \<times> string) list" where
  "CLAUDE_MODEL_ALIASES_entries =
     [(''anthropic/claude-opus-4.6'', ''claude-opus-4-6''),
      (''anthropic/claude-haiku-4.5'', ''claude-haiku-4-5''),
      (''anthropic/claude-sonnet-4.5'', ''claude-sonnet-4-5-20250929''),
      (''anthropic/claude-sonnet-4.6'', ''claude-sonnet-4-6'')]"

definition CLAUDE_MODEL_ALIASES :: "string \<rightharpoonup> string" where
  "CLAUDE_MODEL_ALIASES = map_of CLAUDE_MODEL_ALIASES_entries"

type_synonym ('e, 'p, 's) lookup = "string \<Rightarrow> 's \<Rightarrow> ('e + 'p option) \<times> 's"

definition getModelPricing ::
  "('e, 'p, 's) lookup \<Rightarrow> string \<Rightarrow> 's \<Rightarrow> (('e + 'p option) \<times> pricing_event list) \<times> 's"
where
  "getModelPricing super modelName s =
     (case super modelName s of
        (Inl failure, s1) \<Rightarrow> ((Inl failure, [SuperGetModelPricing modelName]), s1)
      | (Inr (Some pricing), s1) \<Rightarrow>
          ((Inr (Some pricing), [SuperGetModelPricing modelName]), s1)
      | (Inr None, s1) \<Rightarrow>
          (case CLAUDE_MODEL_ALIASES modelName of
             Some alias \<Rightarrow>
               (case super alias s1 of
                  (aliased, s2) \<Rightarrow>
                    ((aliased,
                      [SuperGetModelPricing modelName, AliasesGet modelName,
                       LoggerDebug (''Using alias for model '' @ modelName @ '' -> '' @ alias),
                       SuperGetModelPricing alias]), s2))
           | None \<Rightarrow>
               ((Inr None, [SuperGetModelPricing modelName, AliasesGet modelName]), s1)))"


section \<open>Values of the OpenCode loader\<close>

text \<open>
  A JavaScript number as the loader can meet one: a finite double, which is an exact
  rational, or one of the two infinities (\<open>JSON.parse\<close> yields \<open>Infinity\<close> for
  \<open>1e999\<close>). \<open>NaN\<close> is left out: \<open>JSON.parse\<close> never yields it and the schema's
  \<open>v.number()\<close> rejects it. The loader only compares numbers with zero, which is exact.
  Strings are lists of 8-bit code units.
\<close>

datatype number = Finite rat | PosInfinity | NegInfinity

fun gt_zero :: "number \<Rightarrow> bool" where
  \<comment> \<open>\<open>x > 0\<close>\<close>
  "gt_zero (Finite q) = (0 < q)"
| "gt_zero PosInfinity = True"
| "gt_zero NegInfinity = False"

fun is_zero :: "number \<Rightarrow> bool" where
  \<comment> \<open>\<open>x === 0\<close>\<close>
  "is_zero (Finite q) = (q = 0)"
| "is_zero PosInfinity = False"
| "is_zero NegInfinity = False"

datatype date = Date int | InvalidDate

fun new_Date :: "number \<Rightarrow> date" where
  \<comment> \<open>\<open>new Date(x)\<close>: out of range is an invalid date, otherwise milliseconds cut towards zero\<close>
  "new_Date (Finite q) =
     (if 8640000000000000 < \<bar>q\<bar> then InvalidDate
      else Date (if 0 \<le> q then \<lfloor>q\<rfloor> else \<lceil>q\<rceil>))"
| "new_Date PosInfinity = InvalidDate"
| "new_Date NegInfinity = InvalidDate"

text \<open>
  The value \<open>JSON.parse\<close> returns. An object is the list of its properties; a property
  is read with \<open>map_of\<close>.
\<close>

datatype json =
    JNull
  | JBool bool
  | JNumber number
  | JString string
  | JArray "json list"
  | JObject "(string \<times> json) list"

datatype error = FsError string | SqliteError string | SyntaxError string

subsection \<open>The schemas\<close>

text \<open>
  \<open>v.safeParse\<close> of a schema is a function to \<open>option\<close>: \<open>None\<close> is
  \<open>success: false\<close>, \<open>Some output\<close> is \<open>success: true\<close> with the typed output.
  \<open>v.object\<close> accepts every non-null value of type \<open>object\<close>, so also an array, which
  has none of the keys the schemas ask for.
\<close>

fun object_entries :: "json \<Rightarrow> (string \<times> json) list option" where
  "object_entries (JObject kvs) = Some kvs"
| "object_entries (JArray xs) = Some []"
| "object_entries JNull = None"
| "object_entries (JBool b) = None"
| "object_entries (JNumber n) = None"
| "object_entries (JString s) = None"

fun v_number :: "json \<Rightarrow> number option" where
  "v_number (JNumber n) = Some n"
| "v_number JNull = None"
| "v_number (JBool b) = None"
| "v_number (JString s) = None"
| "v_number (JArray xs) = None"
| "v_number (JObject kvs) = None"

fun v_string :: "json \<Rightarrow> string option" where
  "v_string (JString s) = Some s"
| "v_string JNull = None"
| "v_string (JBool b) = None"
| "v_string (JNumber n) = None"
| "v_string (JArray xs) = None"
| "v_string (JObject kvs) = None"

definition v_literal :: "string \<Rightarrow> json \<Rightarrow> string option" where
  "v_literal lit j = (if j = JString lit then Some lit else None)"

definition required :: "(json \<Rightarrow> 'a option) \<Rightarrow> (string \<times> json) list \<Rightarrow> string \<Rightarrow> 'a option" where
  \<comment> \<open>an entry of \<open>v.object\<close>: a missing key is an issue\<close>
  "required schema kvs key = (case map_of kvs key of None \<Rightarrow> None | Some x \<Rightarrow> schema x)"

definition v_optional ::
  "(json \<Rightarrow> 'a option) \<Rightarrow> (string \<times> json) list \<Rightarrow> string \<Rightarrow> 'a option option" where
  \<comment> \<open>\<open>v.optional(schema)\<close>: a missing key is accepted and stays undefined\<close>
  "v_optional schema kvs key =
     (case map_of kvs key of None \<Rightarrow> Some None | Some x \<Rightarrow> map_option Some (schema x))"

definition v_optional_default ::
  "(json \<Rightarrow> 'a option) \<Rightarrow> json \<Rightarrow> (string \<times> json) list \<Rightarrow> string \<Rightarrow> 'a option" where
  \<comment> \<open>\<open>v.optional(schema, default)\<close>: a missing key is validated as the default\<close>
  "v_optional_default schema dflt kvs key =
     (case map_of kvs key of None \<Rightarrow> schema dflt | Some x \<Rightarrow> schema x)"

record cacheTokens =
  cache_read :: number
  cache_write :: number

record assistantTokens =
  tokens_input :: number
  tokens_output :: number
  tokens_reasoning :: number
  tokens_total :: "number option"
  tokens_cache :: cacheTokens

record messageTime =
  created :: number
  completed :: "number option"

record assistantMessageData =
  role :: string
  modelID :: string
  providerID :: string
  time :: messageTime
  cost :: number
  tokens :: assistantTokens

definition cacheSchema :: "json \<Rightarrow> cacheTokens option" where
  "cacheSchema j =
     (case object_entries j of
        None \<Rightarrow> None
      | Some kvs \<Rightarrow>
          (case (required v_number kvs ''read'', required v_number kvs ''write'') of
             (Some r, Some w) \<Rightarrow> Some \<lparr>cache_read = r, cache_write = w\<rparr>
           | _ \<Rightarrow> None))"

definition assistantTokensSchema :: "json \<Rightarrow> assistantTokens option" where
  "assistantTokensSchema j =
     (case object_entries j of
        None \<Rightarrow> None
      | Some kvs \<Rightarrow>
          (case (required v_number kvs ''input'', required v_number kvs ''output'',
                 v_optional_default v_number (JNumber (Finite 0)) kvs ''reasoning'',
                 v_optional v_number kvs ''total'', required cacheSchema kvs ''cache'') of
             (Some i, Some out, Some r, Some t, Some c) \<Rightarrow>
               Some \<lparr>tokens_input = i, tokens_output = out, tokens_reasoning = r,
                     tokens_total = t, tokens_cache = c\<rparr>
           | _ \<Rightarrow> None))"

definition timeSchema :: "json \<Rightarrow> messageTime option" where
  "timeSchema j =
     (case object_entries j of
        None \<Rightarrow> None
      | Some kvs \<Rightarrow>
          (case (required v_number kvs ''created'', v_optional v_number kvs ''completed'') of
             (Some c, Some d) \<Rightarrow> Some \<lparr>created = c, completed = d\<rparr>
           | _ \<Rightarrow> None))"

definition assistantMessageDataSchema :: "json \<Rightarrow> assistantMessageData option" where
  "assistantMessageDataSchema j =
     (case object_entries j of
        None \<Rightarrow> None
      | Some kvs \<Rightarrow>
          (case (required (v_literal ''assistant'') kvs ''role'', required v_string kvs ''modelID'',
                 required v_string kvs ''providerID'', required timeSchema kvs ''time'',
                 required v_number kvs ''cost'', required assistantTokensSchema kvs ''tokens'') of
             (Some r, Some m, Some p, Some t, Some c, Some tk) \<Rightarrow>
               Some \<lparr>role = r, modelID = m, providerID = p, time = t, cost = c, tokens = tk\<rparr>
           | _ \<Rightarrow> None))"

subsection \<open>Rows and loaded values\<close>

record MessageRow =
  id_MessageRow :: string
  session_id :: string
  time_created :: number
  data :: string

record SessionRow =
  id_SessionRow :: string
  parent_id :: "string option"
  title_SessionRow :: string
  project_id :: string
  directory_SessionRow :: string

record usageTokens =
  inputTokens :: number
  outputTokens :: number
  cacheCreationInputTokens :: number
  cacheReadInputTokens :: number

record LoadedUsageEntry =
  timestamp :: date
  sessionID :: string
  usage :: usageTokens
  model :: string
  costUSD :: "number option"

record LoadedSessionMetadata =
  id_Metadata :: string
  parentID :: "string option"
  title :: string
  projectID :: string
  directory :: string

subsection \<open>The environment of a call\<close>

text \<open>
  What the loader reads from outside: the process environment, the file system through
  the two predicates of \<open>path-type\<close> (which may throw), the two functions of \<open>node:path\<close>,
  \<open>JSON.parse\<close>, and the SQLite module of the runtime. \<open>new_Database\<close> tells
  whether the constructor of the module throws, given the runtime, the file and the
  read-only flag of its options; \<open>None\<close> means it returns a connection. The two queries
  stand for \<open>db.prepare(sql).all()\<close> on the connection to a
  file, with the declared row type.
\<close>

datatype runtime = Bun | Node

record world =
  env :: "string \<rightharpoonup> string"
  cwd :: string
  Bun_defined :: bool
  path_resolve :: "string \<Rightarrow> string"
  path_join :: "string \<Rightarrow> string \<Rightarrow> string"
  isDirectorySync :: "string \<Rightarrow> error + bool"
  isFileSync :: "string \<Rightarrow> error + bool"
  JSON_parse :: "string \<Rightarrow> error + json"
  new_Database :: "runtime \<Rightarrow> string \<Rightarrow> bool \<Rightarrow> error option"
  db_exec :: "string \<Rightarrow> string \<Rightarrow> error option"
  prepare_all_sessions :: "string \<Rightarrow> string \<Rightarrow> error + SessionRow list"
  prepare_all_messages :: "string \<Rightarrow> string \<Rightarrow> error + MessageRow list"

text \<open>
  The native connections made so far, oldest first. A \<open>SqliteDatabase\<close> is the wrapper
  object around one of them: its position in the list and the file it is on.
\<close>

record connection =
  filePath :: string
  openedBy :: runtime
  readonly :: bool
  isOpen :: bool

record SqliteDatabase =
  connection_index :: nat
  connection_file :: string

section \<open>The OpenCode loader\<close>

definition DEFAULT_OPENCODE_PATH :: string where
  "DEFAULT_OPENCODE_PATH = ''.local/share/opencode''"

definition OPENCODE_DB_FILENAME :: string where
  "OPENCODE_DB_FILENAME = ''opencode.db''"

definition OPENCODE_CONFIG_DIR_ENV :: string where
  "OPENCODE_CONFIG_DIR_ENV = ''OPENCODE_DATA_DIR''"

definition USER_HOME_DIR :: "world \<Rightarrow> string" where
  "USER_HOME_DIR w =
     (case env w ''HOME'' of
        Some home \<Rightarrow> home
      | None \<Rightarrow> (case env w ''USERPROFILE'' of Some profile \<Rightarrow> profile | None \<Rightarrow> cwd w))"

definition isWhiteSpace :: "char \<Rightarrow> bool" where
  \<comment> \<open>the white space and line terminators of \<open>String.prototype.trim\<close> below code 256\<close>
  "isWhiteSpace c = (of_char c \<in> {9, 10, 11, 12, 13, 32, 160 :: nat})"

definition trim :: "string \<Rightarrow> string" where
  "trim s = rev (dropWhile isWhiteSpace (rev (dropWhile isWhiteSpace s)))"

text \<open>
  \<open>getOpenCodePath\<close> has two blocks. \<open>fromEnv\<close> is what the first one returns, if
  it returns: the resolved override, when the variable is set, not blank, and names a
  directory. Otherwise control falls through to the second block, the default path.
\<close>

definition getOpenCodePath :: "world \<Rightarrow> error + string option" where
  "getOpenCodePath w =
     (let fromEnv =
        (case env w OPENCODE_CONFIG_DIR_ENV of
           None \<Rightarrow> Inr None
         | Some envPath \<Rightarrow>
             if trim envPath \<noteq> [] then
               (let normalizedPath = path_resolve w envPath in
                case isDirectorySync w normalizedPath of
                  Inl e \<Rightarrow> Inl e
                | Inr isDir \<Rightarrow> Inr (if isDir then Some normalizedPath else None))
             else Inr None)
      in case fromEnv of
           Inl e \<Rightarrow> Inl e
         | Inr (Some found) \<Rightarrow> Inr (Some found)
         | Inr None \<Rightarrow>
             (let defaultPath = path_join w (USER_HOME_DIR w) DEFAULT_OPENCODE_PATH in
              case isDirectorySync w defaultPath of
                Inl e \<Rightarrow> Inl e
              | Inr isDir \<Rightarrow> Inr (if isDir then Some defaultPath else None)))"

definition getOpenCodeDbPath :: "world \<Rightarrow> error + string option" where
  "getOpenCodeDbPath w =
     (case getOpenCodePath w of
        Inl e \<Rightarrow> Inl e
      | Inr None \<Rightarrow> Inr None
      | Inr (Some openCodePath) \<Rightarrow>
          (let dbPath = path_join w openCodePath OPENCODE_DB_FILENAME in
           case isFileSync w dbPath of
             Inl e \<Rightarrow> Inl e
           | Inr isFile \<Rightarrow> Inr (if \<not> isFile then None else Some dbPath)))"

subsection \<open>The SQLite adapter\<close>

text \<open>
  The constructor of the runtime's SQLite module: it throws, or it makes a connection to
  the file in the mode that the flag of its options asks for.
\<close>

definition construct ::
  "world \<Rightarrow> runtime \<Rightarrow> string \<Rightarrow> bool \<Rightarrow> connection list
   \<Rightarrow> error option \<times> connection list"
where
  "construct w rt file flag conns =
     (case new_Database w rt file flag of
        Some e \<Rightarrow> (Some e, conns)
      | None \<Rightarrow>
          (None, conns @ [\<lparr>filePath = file, openedBy = rt, readonly = flag, isOpen = True\<rparr>]))"

definition openBunSqlite ::
  "world \<Rightarrow> string \<Rightarrow> connection list \<Rightarrow> (error + SqliteDatabase) \<times> connection list"
where
  \<comment> \<open>\<open>new mod.Database(filePath, { readonly: true })\<close>, then the pragma\<close>
  "openBunSqlite w file conns =
     (case construct w Bun file True conns of
        (Some e, conns1) \<Rightarrow> (Inl e, conns1)
      | (None, conns1) \<Rightarrow>
          (case db_exec w file ''PRAGMA journal_mode = WAL'' of
             Some e \<Rightarrow> (Inl e, conns1)
           | None \<Rightarrow>
               (Inr \<lparr>connection_index = length conns, connection_file = file\<rparr>, conns1)))"

definition openNodeSqlite ::
  "world \<Rightarrow> string \<Rightarrow> connection list \<Rightarrow> (error + SqliteDatabase) \<times> connection list"
where
  \<comment> \<open>\<open>new mod.DatabaseSync(filePath, { readOnly: true })\<close>, then the pragma\<close>
  "openNodeSqlite w file conns =
     (case construct w Node file True conns of
        (Some e, conns1) \<Rightarrow> (Inl e, conns1)
      | (None, conns1) \<Rightarrow>
          (case db_exec w file ''PRAGMA journal_mode = WAL'' of
             Some e \<Rightarrow> (Inl e, conns1)
           | None \<Rightarrow>
               (Inr \<lparr>connection_index = length conns, connection_file = file\<rparr>, conns1)))"

definition openSqlite ::
  "world \<Rightarrow> string \<Rightarrow> connection list \<Rightarrow> (error + SqliteDatabase) \<times> connection list" where
  "openSqlite w file conns =
     (if Bun_defined w then openBunSqlite w file conns else openNodeSqlite w file conns)"

text \<open>
  A native connection exists as soon as the constructor returned: when the pragma throws,
  \<open>openSqlite\<close> throws with the connection still open.
\<close>

definition close :: "SqliteDatabase \<Rightarrow> connection list \<Rightarrow> connection list" where
  "close db conns =
     (if connection_index db < length conns
      then conns[connection_index db := (conns ! connection_index db)\<lparr>isOpen := False\<rparr>]
      else conns)"

definition openDatabase ::
  "world \<Rightarrow> connection list \<Rightarrow> (error + SqliteDatabase option) \<times> connection list" where
  "openDatabase w conns =
     (case getOpenCodeDbPath w of
        Inl e \<Rightarrow> (Inl e, conns)
      | Inr None \<Rightarrow> (Inr None, conns)
      | Inr (Some dbPath) \<Rightarrow>
          (case openSqlite w dbPath conns of
             (Inl e, conns1) \<Rightarrow> (Inl e, conns1)
           | (Inr db, conns1) \<Rightarrow> (Inr (Some db), conns1)))"

subsection \<open>Conversion and the two loaders\<close>

definition convertMessageToUsageEntry :: "MessageRow \<Rightarrow> assistantMessageData \<Rightarrow> LoadedUsageEntry" where
  "convertMessageToUsageEntry row d =
     \<lparr>timestamp = new_Date (created (time d)),
      sessionID = session_id row,
      usage =
        \<lparr>inputTokens = tokens_input (tokens d),
         outputTokens = tokens_output (tokens d),
         cacheCreationInputTokens = cache_write (tokens_cache (tokens d)),
         cacheReadInputTokens = cache_read (tokens_cache (tokens d))\<rparr>,
      model = modelID d,
      costUSD = (if gt_zero (cost d) then Some (cost d) else None)\<rparr>"

definition SESSION_QUERY :: string where
  "SESSION_QUERY = ''SELECT id, parent_id, title, project_id, directory FROM session''"

definition MESSAGE_QUERY :: string where
  "MESSAGE_QUERY =
     ''SELECT id, session_id, time_created, data FROM message''
     @ [CHR 0x0A, CHR 0x09, CHR 0x09, CHR 0x09]
     @ '' WHERE json_extract(data, '' @ [CHR 0x27] @ ''$.role'' @ [CHR 0x27]
     @ '') = '' @ [CHR 0x27] @ ''assistant'' @ [CHR 0x27]"

text \<open>
  The loop over the session rows. \<open>sessionMap\<close> is a JavaScript \<open>Map\<close>, which keeps its
  keys in the order of their first insertion; \<open>AList.update\<close> is its \<open>set\<close>.
\<close>

fun sessionRows_loop ::
  "SessionRow list \<Rightarrow> (string \<times> LoadedSessionMetadata) list
   \<Rightarrow> (string \<times> LoadedSessionMetadata) list"
where
  "sessionRows_loop [] sessionMap = sessionMap"
| "sessionRows_loop (row # rows) sessionMap =
     sessionRows_loop rows
       (AList.update (id_SessionRow row)
          \<lparr>id_Metadata = id_SessionRow row,
           parentID = parent_id row,
           title = (if title_SessionRow row \<noteq> [] then title_SessionRow row else id_SessionRow row),
           projectID = project_id row,
           directory = directory_SessionRow row\<rparr>
          sessionMap)"

definition loadOpenCodeSessions ::
  "world \<Rightarrow> connection list
   \<Rightarrow> (error + (string \<times> LoadedSessionMetadata) list) \<times> connection list"
where
  "loadOpenCodeSessions w conns =
     (case openDatabase w conns of
        (Inl e, conns1) \<Rightarrow> (Inl e, conns1)
      | (Inr None, conns1) \<Rightarrow> (Inr [], conns1)
      | (Inr (Some db), conns1) \<Rightarrow>
          (let outcome =
             (case prepare_all_sessions w (connection_file db) SESSION_QUERY of
                Inl e \<Rightarrow> Inl e
              | Inr rows \<Rightarrow> Inr (sessionRows_loop rows []))
           in (outcome, close db conns1)))"

text \<open>
  The loop over the message rows, with \<open>entries\<close> as its accumulator. An exception of
  \<open>JSON.parse\<close> leaves the loop. In both loaders the \<open>finally\<close> block runs
  \<open>db.close()\<close> after the \<open>try\<close> block, whichever way that block ended.
\<close>

fun messageRows_loop ::
  "(string \<Rightarrow> error + json) \<Rightarrow> MessageRow list \<Rightarrow> LoadedUsageEntry list
   \<Rightarrow> error + LoadedUsageEntry list"
where
  "messageRows_loop parse [] entries = Inr entries"
| "messageRows_loop parse (row # rows) entries =
     (case parse (data row) of
        Inl e \<Rightarrow> Inl e
      | Inr j \<Rightarrow>
          (case assistantMessageDataSchema j of
             None \<Rightarrow> messageRows_loop parse rows entries
           | Some d \<Rightarrow>
               if is_zero (tokens_input (tokens d)) \<and> is_zero (tokens_output (tokens d))
               then messageRows_loop parse rows entries
               else messageRows_loop parse rows (entries @ [convertMessageToUsageEntry row d])))"

definition loadOpenCodeMessages ::
  "world \<Rightarrow> connection list \<Rightarrow> (error + LoadedUsageEntry list) \<times> connection list"
where
  "loadOpenCodeMessages w conns =
     (case openDatabase w conns of
        (Inl e, conns1) \<Rightarrow> (Inl e, conns1)
      | (Inr None, conns1) \<Rightarrow> (Inr [], conns1)
      | (Inr (Some db), conns1) \<Rightarrow>
          (let outcome =
             (case prepare_all_messages w (connection_file db) MESSAGE_QUERY of
                Inl e \<Rightarrow> Inl e
              | Inr rows \<Rightarrow> messageRows_loop (JSON_parse w) rows [])
           in (outcome, close db conns1)))"

section \<open>Notions the properties are stated with\<close>

text \<open>
  A message row together with its validated payload, when its \<open>data\<close> is JSON that
  passes \<open>assistantMessageDataSchema\<close>; a row whose \<open>data\<close> is JSON that fails it;
  the test for a validated row that has a token count other than zero; and the metadata
  of a session row, with the session id standing in for an empty title.
\<close>

definition validated :: "(string \<Rightarrow> error + json) \<Rightarrow> MessageRow \<Rightarrow> (MessageRow \<times> assistantMessageData) option" where
  "validated parse row =
     (case parse (data row) of
        Inl e \<Rightarrow> None
      | Inr j \<Rightarrow> map_option (Pair row) (assistantMessageDataSchema j))"

definition failsSchema :: "(string \<Rightarrow> error + json) \<Rightarrow> MessageRow \<Rightarrow> bool" where
  "failsSchema parse row =
     (case parse (data row) of Inl e \<Rightarrow> False | Inr j \<Rightarrow> assistantMessageDataSchema j = None)"

definition carriesTokens :: "MessageRow \<times> assistantMessageData \<Rightarrow> bool" where
  "carriesTokens rd =
     (\<not> (is_zero (tokens_input (tokens (snd rd))) \<and> is_zero (tokens_output (tokens (snd rd)))))"

definition metadataOf :: "SessionRow \<Rightarrow> LoadedSessionMetadata" where
  "metadataOf row =
     \<lparr>id_Metadata = id_SessionRow row,
      parentID = parent_id row,
      title = (if title_SessionRow row = [] then id_SessionRow row else title_SessionRow row),
      projectID = project_id row,
      directory = directory_SessionRow row\<rparr>"

section \<open>Example data\<close>

text \<open>
  Payloads as OpenCode writes them, each with the value \<open>JSON.parse\<close> returns for it:
  an assistant message with a cost, one with cost zero, a user message, an assistant
  message without tokens, an assistant message that has no \<open>cost\<close> yet, and a text
  that \<open>JSON.parse\<close> rejects, its key being unquoted.
\<close>

definition paid_text :: string where
  \<open>paid_text = ''{"role":"assistant","modelID":"claude-sonnet-4-5","providerID":"anthropic","time":{"created":1700000000000,"completed":1700000010000},"cost":0.05,"tokens":{"input":100,"output":200,"reasoning":0,"cache":{"read":50,"write":25}}}''\<close>

definition paid_json :: json where
  "paid_json =
     JObject
       [(''role'', JString ''assistant''), (''modelID'', JString ''claude-sonnet-4-5''),
        (''providerID'', JString ''anthropic''),
        (''time'', JObject [(''created'', JNumber (Finite 1700000000000)),
                           (''completed'', JNumber (Finite 1700000010000))]),
        (''cost'', JNumber (Finite (5 / 100))),
        (''tokens'', JObject [(''input'', JNumber (Finite 100)), (''output'', JNumber (Finite 200)),
                             (''reasoning'', JNumber (Finite 0)),
                             (''cache'', JObject [(''read'', JNumber (Finite 50)),
                                                 (''write'', JNumber (Finite 25))])])]"

definition free_text :: string where
  \<open>free_text = ''{"role":"assistant","modelID":"gpt-5.1","providerID":"openai","time":{"created":1700000020000},"cost":0,"tokens":{"input":50,"output":100,"cache":{"read":0,"write":0}}}''\<close>

definition free_json :: json where
  "free_json =
     JObject
       [(''role'', JString ''assistant''), (''modelID'', JString ''gpt-5.1''),
        (''providerID'', JString ''openai''),
        (''time'', JObject [(''created'', JNumber (Finite 1700000020000))]),
        (''cost'', JNumber (Finite 0)),
        (''tokens'', JObject [(''input'', JNumber (Finite 50)), (''output'', JNumber (Finite 100)),
                             (''cache'', JObject [(''read'', JNumber (Finite 0)),
                                                 (''write'', JNumber (Finite 0))])])]"

definition user_text :: string where
  \<open>user_text = ''{"role":"user","time":{"created":1700000030000}}''\<close>

definition user_json :: json where
  "user_json =
     JObject [(''role'', JString ''user''),
              (''time'', JObject [(''created'', JNumber (Finite 1700000030000))])]"

definition idle_text :: string where
  \<open>idle_text = ''{"role":"assistant","modelID":"claude-sonnet-4-5","providerID":"anthropic","time":{"created":1700000040000},"cost":0,"tokens":{"input":0,"output":0,"reasoning":0,"cache":{"read":0,"write":0}}}''\<close>

definition idle_json :: json where
  "idle_json =
     JObject
       [(''role'', JString ''assistant''), (''modelID'', JString ''claude-sonnet-4-5''),
        (''providerID'', JString ''anthropic''),
        (''time'', JObject [(''created'', JNumber (Finite 1700000040000))]),
        (''cost'', JNumber (Finite 0)),
        (''tokens'', JObject [(''input'', JNumber (Finite 0)), (''output'', JNumber (Finite 0)),
                             (''reasoning'', JNumber (Finite 0)),
                             (''cache'', JObject [(''read'', JNumber (Finite 0)),
                                                 (''write'', JNumber (Finite 0))])])]"

definition uncosted_text :: string where
  \<open>uncosted_text = ''{"role":"assistant","modelID":"claude-sonnet-4-5","providerID":"anthropic","time":{"created":1700000050000},"tokens":{"input":5,"output":3,"reasoning":0,"cache":{"read":0,"write":0}}}''\<close>

definition uncosted_tokens :: "(string \<times> json) list" where
  "uncosted_tokens =
     [(''input'', JNumber (Finite 5)), (''output'', JNumber (Finite 3)),
      (''reasoning'', JNumber (Finite 0)),
      (''cache'', JObject [(''read'', JNumber (Finite 0)), (''write'', JNumber (Finite 0))])]"

definition uncosted_properties :: "(string \<times> json) list" where
  "uncosted_properties =
     [(''role'', JString ''assistant''), (''modelID'', JString ''claude-sonnet-4-5''),
      (''providerID'', JString ''anthropic''),
      (''time'', JObject [(''created'', JNumber (Finite 1700000050000))]),
      (''tokens'', JObject uncosted_tokens)]"

definition broken_text :: string where
  \<open>broken_text = ''{role:"assistant"}''\<close>

definition example_JSON_parse :: "string \<Rightarrow> error + json" where
  "example_JSON_parse s =
     (if s = paid_text then Inr paid_json
      else if s = free_text then Inr free_json
      else if s = user_text then Inr user_json
      else if s = idle_text then Inr idle_json
      else if s = uncosted_text then Inr (JObject uncosted_properties)
      else Inl (SyntaxError ''Unexpected token''))"

definition paid_row :: MessageRow where
  "paid_row = \<lparr>id_MessageRow = ''msg_1'', session_id = ''ses_1'',
                time_created = Finite 1700000000000, data = paid_text\<rparr>"

definition free_row :: MessageRow where
  "free_row = \<lparr>id_MessageRow = ''msg_2'', session_id = ''ses_1'',
                time_created = Finite 1700000020000, data = free_text\<rparr>"

definition user_row :: MessageRow where
  "user_row = \<lparr>id_MessageRow = ''msg_3'', session_id = ''ses_1'',
                time_created = Finite 1700000030000, data = user_text\<rparr>"

definition idle_row :: MessageRow where
  "idle_row = \<lparr>id_MessageRow = ''msg_4'', session_id = ''ses_2'',
                time_created = Finite 1700000040000, data = idle_text\<rparr>"

definition uncosted_row :: MessageRow where
  "uncosted_row = \<lparr>id_MessageRow = ''msg_5'', session_id = ''ses_2'',
                    time_created = Finite 1700000050000, data = uncosted_text\<rparr>"

definition broken_row :: MessageRow where
  "broken_row = \<lparr>id_MessageRow = ''msg_6'', session_id = ''ses_2'',
                  time_created = Finite 1700000060000, data = broken_text\<rparr>"

definition paid_entry :: LoadedUsageEntry where
  "paid_entry =
     \<lparr>timestamp = Date 1700000000000, sessionID = ''ses_1'',
      usage = \<lparr>inputTokens = Finite 100, outputTokens = Finite 200,
               cacheCreationInputTokens = Finite 25, cacheReadInputTokens = Finite 50\<rparr>,
      model = ''claude-sonnet-4-5'', costUSD = Some (Finite (5 / 100))\<rparr>"

definition free_entry :: LoadedUsageEntry where
  "free_entry =
     \<lparr>timestamp = Date 1700000020000, sessionID = ''ses_1'',
      usage = \<lparr>inputTokens = Finite 50, outputTokens = Finite 100,
               cacheCreationInputTokens = Finite 0, cacheReadInputTokens = Finite 0\<rparr>,
      model = ''gpt-5.1'', costUSD = None\<rparr>"

definition untitled_session :: SessionRow where
  "untitled_session =
     \<lparr>id_SessionRow = ''ses_1'', parent_id = None, title_SessionRow = '''',
      project_id = ''prj_1'', directory_SessionRow = ''/home/dev/project''\<rparr>"

definition titled_session :: SessionRow where
  "titled_session =
     \<lparr>id_SessionRow = ''ses_2'', parent_id = Some ''ses_1'', title_SessionRow = ''Fix the parser'',
      project_id = ''prj_1'', directory_SessionRow = ''/home/dev/project''\<rparr>"

text \<open>
  A machine running Node with the database at its default place and no override variable.
  The paths in it are absolute and normalised, where \<open>path.resolve\<close> returns its
  argument and \<open>path.join\<close> puts a separator between its two.
\<close>

definition example_world :: world where
  "example_world =
     \<lparr>env = [''HOME'' \<mapsto> ''/home/dev''],
      cwd = ''/home/dev/project'',
      Bun_defined = False,
      path_resolve = (\<lambda>p. p),
      path_join = (\<lambda>a b. a @ ''/'' @ b),
      isDirectorySync = (\<lambda>p. Inr (p = ''/home/dev/.local/share/opencode'')),
      isFileSync = (\<lambda>p. Inr (p = ''/home/dev/.local/share/opencode/opencode.db'')),
      JSON_parse = example_JSON_parse,
      new_Database = (\<lambda>rt file ro. None),
      db_exec = (\<lambda>file sql. None),
      prepare_all_sessions = (\<lambda>file sql. Inr [untitled_session, titled_session]),
      prepare_all_messages = (\<lambda>file sql. Inr [paid_row, user_row, idle_row, free_row])\<rparr>"

definition with_messages :: "MessageRow list \<Rightarrow> world \<Rightarrow> world" where
  "with_messages rows w = w\<lparr>prepare_all_messages := (\<lambda>file sql. Inr rows)\<rparr>"

definition with_override :: "string \<Rightarrow> world \<Rightarrow> world" where
  \<comment> \<open>the same machine with the override variable set\<close>
  "with_override dir w = w\<lparr>env := (env w)(OPENCODE_CONFIG_DIR_ENV \<mapsto> dir)\<rparr>"

definition without_directory :: "world \<Rightarrow> world" where
  \<comment> \<open>the same machine with no directory at all\<close>
  "without_directory w = w\<lparr>isDirectorySync := (\<lambda>p. Inr False)\<rparr>"

definition with_corrupt_database :: "world \<Rightarrow> world" where
  \<comment> \<open>the same machine with an \<open>opencode.db\<close> that is not a database: the constructor
      returns, and the first statement run on the connection throws\<close>
  "with_corrupt_database w =
     w\<lparr>db_exec := (\<lambda>file sql. Some (SqliteError ''file is not a database''))\<rparr>"

definition with_misplaced_override :: "world \<Rightarrow> world" where
  \<comment> \<open>a machine with no OpenCode directory and no database anywhere, and the override set
      to a path below the regular file \<open>/etc/hostname\<close>: that path does not exist, and
      the check of it throws, the error of \<open>stat\<close> being \<open>ENOTDIR\<close>\<close>
  "with_misplaced_override w =
     (with_override ''/etc/hostname/opencode'' w)
       \<lparr>isDirectorySync :=
          (\<lambda>p. if p = ''/etc/hostname/opencode''
                then Inl (FsError ''ENOTDIR: not a directory, stat'') else Inr False),
        isFileSync := (\<lambda>p. Inr False)\<rparr>"

definition example_connection :: connection where
  "example_connection =
     \<lparr>filePath = ''/home/dev/.local/share/opencode/opencode.db'', openedBy = Node,
      readonly = True, isOpen = False\<rparr>"

definition example_database :: SqliteDatabase where
  "example_database =
     \<lparr>connection_index = 0, connection_file = ''/home/dev/.local/share/opencode/opencode.db''\<rparr>"

text \<open>
  A catalog to run the method on. The record type of a catalog entry is declared in the
  base class's package; the method never looks inside it, so \<open>getModelPricing\<close> is
  polymorphic in it. The example uses the four per-token rates of a pricing record.
\<close>

record LiteLLMModelPricing =
  input_cost_per_token :: rat
  output_cost_per_token :: rat
  cache_creation_input_token_cost :: rat
  cache_read_input_token_cost :: rat

definition example_pricing :: LiteLLMModelPricing where
  "example_pricing =
     \<lparr>input_cost_per_token = 5 / 1000000, output_cost_per_token = 25 / 1000000,
      cache_creation_input_token_cost = 625 / 100000000,
      cache_read_input_token_cost = 5 / 10000000\<rparr>"

definition example_lookup :: "(string, LiteLLMModelPricing, nat) lookup" where
  \<comment> \<open>An exact lookup in a one-entry catalog; the state counts the lookups made.\<close>
  "example_lookup modelName n =
     (Inr (map_of [(''claude-opus-4-6'', example_pricing)] modelName), Suc n)"

definition failing_lookup :: "(string, LiteLLMModelPricing, nat) lookup" where
  \<comment> \<open>A fetcher whose catalog cannot be acquired.\<close>
  "failing_lookup modelName n = (Inl ''Failed to fetch model pricing'', Suc n)"

section \<open>Properties of pricing resolution\<close>

lemma aliases_opus: "CLAUDE_MODEL_ALIASES ''anthropic/claude-opus-4.6'' = Some ''claude-opus-4-6''"
  by (simp add: CLAUDE_MODEL_ALIASES_def CLAUDE_MODEL_ALIASES_entries_def)

lemma aliases_unknown: "CLAUDE_MODEL_ALIASES ''gpt-5'' = None"
  by (simp add: CLAUDE_MODEL_ALIASES_def CLAUDE_MODEL_ALIASES_entries_def)

lemma getModelPricing_events_cases:
  "snd (fst (getModelPricing super modelName s)) = [SuperGetModelPricing modelName]
   \<or> (\<exists>rest. snd (fst (getModelPricing super modelName s)) =
         SuperGetModelPricing modelName # AliasesGet modelName # rest
         \<and> AliasesGet modelName \<notin> set rest)"
  by (auto simp: getModelPricing_def split: prod.splits sum.splits option.splits)

text \<open>
  C2. Resolution starts with the base lookup of the name as given. A hit is returned as it
  is, with no read of the alias table. The alias table is read exactly when that first
  lookup succeeded with \<open>null\<close>; when it holds an alias, the base lookup is repeated with
  the alias and its outcome is the outcome of the resolution, so a name the first lookup
  does not find and whose alias it does find resolves to the pricing of the alias.
\<close>

theorem getModelPricing_alias_fallback:
  "(\<exists>rest. snd (fst (getModelPricing super modelName s)) = SuperGetModelPricing modelName # rest)
   \<and> (super modelName s = (Inr (Some pricing), s1) \<longrightarrow>
        getModelPricing super modelName s =
          ((Inr (Some pricing), [SuperGetModelPricing modelName]), s1))
   \<and> (AliasesGet modelName \<in> set (snd (fst (getModelPricing super modelName s)))
        \<longleftrightarrow> (\<exists>s'. super modelName s = (Inr None, s')))
   \<and> (super modelName s = (Inr None, s1) \<and> CLAUDE_MODEL_ALIASES modelName = Some alias \<longrightarrow>
        fst (fst (getModelPricing super modelName s)) = fst (super alias s1)
        \<and> snd (getModelPricing super modelName s) = snd (super alias s1)
        \<and> snd (fst (getModelPricing super modelName s)) =
            [SuperGetModelPricing modelName, AliasesGet modelName,
             LoggerDebug (''Using alias for model '' @ modelName @ '' -> '' @ alias),
             SuperGetModelPricing alias])
   \<and> (super modelName s = (Inr None, s1) \<and> CLAUDE_MODEL_ALIASES modelName = Some alias
        \<and> super alias s1 = (Inr (Some pricing), s2) \<longrightarrow>
        fst (getModelPricing super modelName s) =
          (Inr (Some pricing),
           [SuperGetModelPricing modelName, AliasesGet modelName,
            LoggerDebug (''Using alias for model '' @ modelName @ '' -> '' @ alias),
            SuperGetModelPricing alias]))"
proof (intro conjI impI)
  show "\<exists>rest. snd (fst (getModelPricing super modelName s)) = SuperGetModelPricing modelName # rest"
    using getModelPricing_events_cases [of super modelName s] by auto
next
  assume "super modelName s = (Inr (Some pricing), s1)"
  then show "getModelPricing super modelName s =
      ((Inr (Some pricing), [SuperGetModelPricing modelName]), s1)"
    by (simp add: getModelPricing_def)
next
  show "AliasesGet modelName \<in> set (snd (fst (getModelPricing super modelName s)))
        \<longleftrightarrow> (\<exists>s'. super modelName s = (Inr None, s'))"
    by (auto simp: getModelPricing_def split: prod.splits sum.splits option.splits)
next
  assume a: "super modelName s = (Inr None, s1) \<and> CLAUDE_MODEL_ALIASES modelName = Some alias"
  then show "fst (fst (getModelPricing super modelName s)) = fst (super alias s1)"
    by (simp add: getModelPricing_def split: prod.splits)
  from a show "snd (getModelPricing super modelName s) = snd (super alias s1)"
    by (simp add: getModelPricing_def split: prod.splits)
  from a show "snd (fst (getModelPricing super modelName s)) =
      [SuperGetModelPricing modelName, AliasesGet modelName,
       LoggerDebug (''Using alias for model '' @ modelName @ '' -> '' @ alias),
       SuperGetModelPricing alias]"
    by (simp add: getModelPricing_def split: prod.splits)
next
  assume "super modelName s = (Inr None, s1) \<and> CLAUDE_MODEL_ALIASES modelName = Some alias
        \<and> super alias s1 = (Inr (Some pricing), s2)"
  then show "fst (getModelPricing super modelName s) =
      (Inr (Some pricing),
       [SuperGetModelPricing modelName, AliasesGet modelName,
        LoggerDebug (''Using alias for model '' @ modelName @ '' -> '' @ alias),
        SuperGetModelPricing alias])"
    by (simp add: getModelPricing_def)
qed

theorem getModelPricing_alias_fallback_witness:
  "example_lookup ''anthropic/claude-opus-4.6'' 0 = (Inr None, 1)
   \<and> CLAUDE_MODEL_ALIASES ''anthropic/claude-opus-4.6'' = Some ''claude-opus-4-6''
   \<and> example_lookup ''claude-opus-4-6'' 1 = (Inr (Some example_pricing), 2)
   \<and> fst (fst (getModelPricing example_lookup ''anthropic/claude-opus-4.6'' 0))
       = Inr (Some example_pricing)
   \<and> AliasesGet ''anthropic/claude-opus-4.6''
       \<in> set (snd (fst (getModelPricing example_lookup ''anthropic/claude-opus-4.6'' 0)))
   \<and> example_lookup ''claude-opus-4-6'' 0 = (Inr (Some example_pricing), 1)
   \<and> getModelPricing example_lookup ''claude-opus-4-6'' 0
       = ((Inr (Some example_pricing), [SuperGetModelPricing ''claude-opus-4-6'']), 1)"
proof -
  have h1: "example_lookup ''anthropic/claude-opus-4.6'' 0 = (Inr None, 1)"
    by (simp add: example_lookup_def)
  have h2: "example_lookup ''claude-opus-4-6'' 1 = (Inr (Some example_pricing), 2)"
    by (simp add: example_lookup_def)
  have h3: "example_lookup ''claude-opus-4-6'' 0 = (Inr (Some example_pricing), 1)"
    by (simp add: example_lookup_def)
  note a = getModelPricing_alias_fallback
    [of example_lookup "''anthropic/claude-opus-4.6''" 0 example_pricing 1 "''claude-opus-4-6''" 2]
  note b = getModelPricing_alias_fallback
    [of example_lookup "''claude-opus-4-6''" 0 example_pricing 1 "''claude-opus-4-6''" 2]
  from a h1 h2 aliases_opus
  have "fst (fst (getModelPricing example_lookup ''anthropic/claude-opus-4.6'' 0))
       = Inr (Some example_pricing)"
    by simp
  moreover from a h1
  have "AliasesGet ''anthropic/claude-opus-4.6''
       \<in> set (snd (fst (getModelPricing example_lookup ''anthropic/claude-opus-4.6'' 0)))"
    by blast
  moreover from b h3
  have "getModelPricing example_lookup ''claude-opus-4-6'' 0
       = ((Inr (Some example_pricing), [SuperGetModelPricing ''claude-opus-4-6'']), 1)"
    by blast
  ultimately show ?thesis using h1 h2 h3 aliases_opus by blast
qed

text \<open>
  C7. A name that is not resolved (the first lookup succeeds with \<open>null\<close>, and either the
  alias table has no entry for it or the lookup of its alias succeeds with \<open>null\<close> too)
  yields the success value \<open>null\<close>, not a failure. A failure of the first lookup is
  returned as that same failure, after the one lookup and with no read of the alias
  table.
\<close>

theorem getModelPricing_unresolved_or_failure:
  "(super modelName s = (Inr None, s1) \<and> CLAUDE_MODEL_ALIASES modelName = None \<longrightarrow>
        getModelPricing super modelName s =
          ((Inr None, [SuperGetModelPricing modelName, AliasesGet modelName]), s1))
   \<and> (super modelName s = (Inr None, s1) \<and> CLAUDE_MODEL_ALIASES modelName = Some alias
        \<and> super alias s1 = (Inr None, s2) \<longrightarrow>
        fst (fst (getModelPricing super modelName s)) = Inr None
        \<and> snd (getModelPricing super modelName s) = s2)
   \<and> (super modelName s = (Inl failure, s1) \<longrightarrow>
        getModelPricing super modelName s =
          ((Inl failure, [SuperGetModelPricing modelName]), s1)
        \<and> AliasesGet modelName \<notin> set (snd (fst (getModelPricing super modelName s))))"
  by (simp add: getModelPricing_def)

theorem getModelPricing_unresolved_or_failure_witness:
  "example_lookup ''gpt-5'' 0 = (Inr None, 1) \<and> CLAUDE_MODEL_ALIASES ''gpt-5'' = None
   \<and> getModelPricing example_lookup ''gpt-5'' 0
       = ((Inr None, [SuperGetModelPricing ''gpt-5'', AliasesGet ''gpt-5'']), 1)
   \<and> example_lookup ''anthropic/claude-haiku-4.5'' 0 = (Inr None, 1)
   \<and> CLAUDE_MODEL_ALIASES ''anthropic/claude-haiku-4.5'' = Some ''claude-haiku-4-5''
   \<and> example_lookup ''claude-haiku-4-5'' 1 = (Inr None, 2)
   \<and> fst (fst (getModelPricing example_lookup ''anthropic/claude-haiku-4.5'' 0)) = Inr None
   \<and> failing_lookup ''claude-opus-4-6'' 0 = (Inl ''Failed to fetch model pricing'', 1)
   \<and> getModelPricing failing_lookup ''claude-opus-4-6'' 0
       = ((Inl ''Failed to fetch model pricing'', [SuperGetModelPricing ''claude-opus-4-6'']), 1)"
proof -
  have h1: "example_lookup ''gpt-5'' 0 = (Inr None, 1)"
    by (simp add: example_lookup_def)
  have h2: "example_lookup ''anthropic/claude-haiku-4.5'' 0 = (Inr None, 1)"
    by (simp add: example_lookup_def)
  have h3: "CLAUDE_MODEL_ALIASES ''anthropic/claude-haiku-4.5'' = Some ''claude-haiku-4-5''"
    by (simp add: CLAUDE_MODEL_ALIASES_def CLAUDE_MODEL_ALIASES_entries_def)
  have h4: "example_lookup ''claude-haiku-4-5'' 1 = (Inr None, 2)"
    by (simp add: example_lookup_def)
  have h5: "failing_lookup ''claude-opus-4-6'' 0 = (Inl ''Failed to fetch model pricing'', 1)"
    by (simp add: failing_lookup_def)
  note a = getModelPricing_unresolved_or_failure
    [of example_lookup "''gpt-5''" 0 1 "''claude-haiku-4-5''" 2 "''x''"]
  note b = getModelPricing_unresolved_or_failure
    [of example_lookup "''anthropic/claude-haiku-4.5''" 0 1 "''claude-haiku-4-5''" 2 "''x''"]
  note c = getModelPricing_unresolved_or_failure
    [of failing_lookup "''claude-opus-4-6''" 0 1 "''claude-haiku-4-5''" 2
        "''Failed to fetch model pricing''"]
  from a h1 aliases_unknown
  have "getModelPricing example_lookup ''gpt-5'' 0
       = ((Inr None, [SuperGetModelPricing ''gpt-5'', AliasesGet ''gpt-5'']), 1)"
    by blast
  moreover from b h2 h3 h4
  have "fst (fst (getModelPricing example_lookup ''anthropic/claude-haiku-4.5'' 0)) = Inr None"
    by blast
  moreover from c h5
  have "getModelPricing failing_lookup ''claude-opus-4-6'' 0
       = ((Inl ''Failed to fetch model pricing'', [SuperGetModelPricing ''claude-opus-4-6'']), 1)"
    by blast
  ultimately show ?thesis using h1 h2 h3 h4 h5 aliases_unknown by blast
qed

section \<open>Properties of the OpenCode loader\<close>

subsection \<open>Opening and closing\<close>

lemma openSqlite_connection:
  assumes "openSqlite w file conns = (Inr db, conns1)"
  shows "db = \<lparr>connection_index = length conns, connection_file = file\<rparr>
         \<and> conns1 = conns @ [\<lparr>filePath = file, openedBy = (if Bun_defined w then Bun else Node),
                                readonly = True, isOpen = True\<rparr>]"
  using assms
  by (auto simp: openSqlite_def openBunSqlite_def openNodeSqlite_def construct_def
           split: if_splits option.splits)

lemma openDatabase_connection:
  assumes "openDatabase w conns = (Inr (Some db), conns1)"
  shows "connection_index db = length conns
         \<and> getOpenCodeDbPath w = Inr (Some (connection_file db))
         \<and> conns1 = conns @ [\<lparr>filePath = connection_file db,
                                openedBy = (if Bun_defined w then Bun else Node),
                                readonly = True, isOpen = True\<rparr>]"
  using assms
  by (auto simp: openDatabase_def split: sum.splits option.splits prod.splits
           dest!: openSqlite_connection)

lemma close_last:
  "connection_index db = length conns \<Longrightarrow>
   close db (conns @ [c]) = conns @ [c\<lparr>isOpen := False\<rparr>]"
  by (simp add: close_def)

lemma openDatabase_absent:
  "getOpenCodeDbPath w = Inr None \<Longrightarrow> openDatabase w conns = (Inr None, conns)"
  by (simp add: openDatabase_def)

lemma loaders_absent:
  assumes "getOpenCodeDbPath w = Inr None"
  shows "loadOpenCodeMessages w conns = (Inr [], conns)"
    and "loadOpenCodeSessions w conns = (Inr [], conns)"
  using assms
  by (simp_all add: loadOpenCodeMessages_def loadOpenCodeSessions_def openDatabase_absent)

lemma loadOpenCodeMessages_opened:
  assumes "openDatabase w conns = (Inr (Some db), conns1)"
  shows "loadOpenCodeMessages w conns =
           ((case prepare_all_messages w (connection_file db) MESSAGE_QUERY of
               Inl e \<Rightarrow> Inl e
             | Inr rows \<Rightarrow> messageRows_loop (JSON_parse w) rows []),
            close db conns1)"
  using assms by (simp add: loadOpenCodeMessages_def)

lemma loadOpenCodeSessions_opened:
  assumes "openDatabase w conns = (Inr (Some db), conns1)"
  shows "loadOpenCodeSessions w conns =
           ((case prepare_all_sessions w (connection_file db) SESSION_QUERY of
               Inl e \<Rightarrow> Inl e
             | Inr rows \<Rightarrow> Inr (sessionRows_loop rows [])),
            close db conns1)"
  using assms by (simp add: loadOpenCodeSessions_def)

lemma messageRows_loop_parsed:
  "(\<forall>row\<in>set rows. \<exists>j. parse (data row) = Inr j) \<Longrightarrow>
   messageRows_loop parse rows entries =
     Inr (entries @ map (\<lambda>rd. convertMessageToUsageEntry (fst rd) (snd rd))
                      (filter carriesTokens (List.map_filter (validated parse) rows)))"
proof (induction rows arbitrary: entries)
  case Nil
  show ?case by (simp add: List.map_filter_simps)
next
  case (Cons row rows)
  from Cons.prems obtain j where j: "parse (data row) = Inr j" by auto
  from Cons.prems have rest: "\<forall>row\<in>set rows. \<exists>j. parse (data row) = Inr j" by simp
  show ?case
  proof (cases "assistantMessageDataSchema j")
    case None
    with j Cons.IH [OF rest] show ?thesis
      by (simp add: List.map_filter_simps validated_def)
  next
    case (Some d)
    with j Cons.IH [OF rest] show ?thesis
      by (simp add: List.map_filter_simps validated_def carriesTokens_def)
  qed
qed

lemma messageRows_loop_Inr_parsed:
  "messageRows_loop parse rows entries = Inr result \<Longrightarrow>
   \<forall>row\<in>set rows. \<exists>j. parse (data row) = Inr j"
proof (induction rows arbitrary: entries)
  case Nil
  show ?case by simp
next
  case (Cons row rows)
  then show ?case
    by (auto split: sum.splits option.splits if_splits)
qed

lemma messageRows_loop_skip:
  "messageRows_loop parse (filter (\<lambda>row. \<not> failsSchema parse row) rows) entries
   = messageRows_loop parse rows entries"
proof (induction rows arbitrary: entries)
  case Nil
  show ?case by simp
next
  case (Cons row rows)
  show ?case
  proof (cases "parse (data row)")
    case (Inl e)
    then show ?thesis by (simp add: failsSchema_def)
  next
    case (Inr j)
    with Cons.IH show ?thesis
      by (cases "assistantMessageDataSchema j") (simp_all add: failsSchema_def)
  qed
qed

lemma validated_set:
  "rd \<in> set (List.map_filter (validated parse) rows) \<longleftrightarrow>
   (fst rd \<in> set rows \<and> (\<exists>j. parse (data (fst rd)) = Inr j \<and> assistantMessageDataSchema j = Some (snd rd)))"
proof (induction rows)
  case Nil
  show ?case by (simp add: List.map_filter_simps)
next
  case (Cons row rows)
  then show ?case
    by (cases rd) (auto simp: List.map_filter_simps validated_def split: sum.splits option.splits)
qed

lemma schema_role:
  "assistantMessageDataSchema j = Some d \<Longrightarrow>
   role d = ''assistant'' \<and> (\<exists>kvs. object_entries j = Some kvs \<and> map_of kvs ''role'' = Some (JString ''assistant''))"
  by (auto simp: assistantMessageDataSchema_def required_def v_literal_def
           split: option.splits prod.splits if_splits)


subsection \<open>Where a loaded entry comes from\<close>

lemma loaded_entry_origin:
  assumes "fst (loadOpenCodeMessages w conns) = Inr entries" and "e \<in> set entries"
  shows "\<exists>dbPath rows row j d.
           getOpenCodeDbPath w = Inr (Some dbPath)
           \<and> prepare_all_messages w dbPath MESSAGE_QUERY = Inr rows
           \<and> row \<in> set rows
           \<and> JSON_parse w (data row) = Inr j
           \<and> assistantMessageDataSchema j = Some d
           \<and> \<not> (is_zero (tokens_input (tokens d)) \<and> is_zero (tokens_output (tokens d)))
           \<and> e = convertMessageToUsageEntry row d"
proof (cases "openDatabase w conns")
  case (Pair outcome conns1)
  show ?thesis
  proof (cases outcome)
    case (Inl err)
    with Pair assms show ?thesis by (simp add: loadOpenCodeMessages_def)
  next
    case (Inr found)
    show ?thesis
    proof (cases found)
      case None
      with Pair Inr assms show ?thesis by (simp add: loadOpenCodeMessages_def)
    next
      case (Some db)
      with Pair Inr have opened: "openDatabase w conns = (Inr (Some db), conns1)" by simp
      from openDatabase_connection [OF opened]
      have path: "getOpenCodeDbPath w = Inr (Some (connection_file db))" by simp
      from assms(1) loadOpenCodeMessages_opened [OF opened]
      obtain rows where rows: "prepare_all_messages w (connection_file db) MESSAGE_QUERY = Inr rows"
        and run: "messageRows_loop (JSON_parse w) rows [] = Inr entries"
        by (auto split: sum.splits)
      from messageRows_loop_Inr_parsed [OF run]
      have parsed: "\<forall>row\<in>set rows. \<exists>j. JSON_parse w (data row) = Inr j" .
      from messageRows_loop_parsed [OF parsed, of "[]"] run
      have "entries = map (\<lambda>rd. convertMessageToUsageEntry (fst rd) (snd rd))
                        (filter carriesTokens (List.map_filter (validated (JSON_parse w)) rows))"
        by simp
      with assms(2) obtain rd where rd: "rd \<in> set (List.map_filter (validated (JSON_parse w)) rows)"
        and keeps: "carriesTokens rd" and e: "e = convertMessageToUsageEntry (fst rd) (snd rd)"
        by auto
      from rd obtain j where "fst rd \<in> set rows" "JSON_parse w (data (fst rd)) = Inr j"
        "assistantMessageDataSchema j = Some (snd rd)"
        by (auto simp: validated_set)
      with path rows keeps e show ?thesis
        unfolding carriesTokens_def by blast
    qed
  qed
qed

lemma example_world_messages:
  "loadOpenCodeMessages example_world [] = (Inr [paid_entry, free_entry], [example_connection])"
  by code_simp


subsection \<open>Finding the database\<close>

lemma getOpenCodePath_fallback:
  assumes "env w OPENCODE_CONFIG_DIR_ENV = None
           \<or> (\<exists>v. env w OPENCODE_CONFIG_DIR_ENV = Some v
                    \<and> (trim v = [] \<or> isDirectorySync w (path_resolve w v) = Inr False))"
    and "isDirectorySync w (path_join w (USER_HOME_DIR w) DEFAULT_OPENCODE_PATH) = Inr isDir"
  shows "getOpenCodePath w =
           Inr (if isDir then Some (path_join w (USER_HOME_DIR w) DEFAULT_OPENCODE_PATH) else None)"
  using assms by (auto simp: getOpenCodePath_def Let_def)

lemma getOpenCodeDbPath_no_directory:
  "getOpenCodePath w = Inr None \<Longrightarrow> getOpenCodeDbPath w = Inr None"
  by (simp add: getOpenCodeDbPath_def)

lemma getOpenCodeDbPath_no_file:
  "getOpenCodePath w = Inr (Some dir) \<Longrightarrow>
   isFileSync w (path_join w dir OPENCODE_DB_FILENAME) = Inr False \<Longrightarrow>
   getOpenCodeDbPath w = Inr None"
  by (simp add: getOpenCodeDbPath_def)

subsection \<open>The session map\<close>

lemma sessionRows_loop_step:
  "sessionRows_loop (row # rows) sessionMap =
     sessionRows_loop rows (AList.update (id_SessionRow row) (metadataOf row) sessionMap)"
  by (simp add: metadataOf_def)

lemma sessionRows_loop_append:
  "sessionRows_loop (xs @ ys) sessionMap = sessionRows_loop ys (sessionRows_loop xs sessionMap)"
  by (induction xs arbitrary: sessionMap) simp_all

lemma sessionRows_loop_other:
  "k \<notin> id_SessionRow ` set rows \<Longrightarrow>
   map_of (sessionRows_loop rows sessionMap) k = map_of sessionMap k"
proof (induction rows arbitrary: sessionMap)
  case Nil
  show ?case by simp
next
  case (Cons row rows)
  then show ?case by (simp add: update_conv' del: sessionRows_loop.simps(2) add: sessionRows_loop_step)
qed

lemma update_key_set: "fst ` set (AList.update k v al) = insert k (fst ` set al)"
  using dom_update [of k v al] by (simp add: dom_map_of_conv_image_fst)

lemma sessionRows_loop_keys:
  "fst ` set (sessionRows_loop rows sessionMap) = fst ` set sessionMap \<union> id_SessionRow ` set rows"
proof (induction rows arbitrary: sessionMap)
  case Nil
  show ?case by simp
next
  case (Cons row rows)
  show ?case
    unfolding sessionRows_loop_step Cons.IH
    by (simp add: update_key_set)
qed

lemma sessionRows_loop_distinct:
  "distinct (map fst sessionMap) \<Longrightarrow> distinct (map fst (sessionRows_loop rows sessionMap))"
proof (induction rows arbitrary: sessionMap)
  case Nil
  then show ?case by simp
next
  case (Cons row rows)
  then show ?case
    unfolding sessionRows_loop_step by (simp add: distinct_update)
qed

lemma sessionRows_loop_last:
  assumes "id_SessionRow row \<notin> id_SessionRow ` set after"
  shows "map_of (sessionRows_loop (before @ row # after) sessionMap) (id_SessionRow row)
         = Some (metadataOf row)"
proof -
  have "sessionRows_loop (before @ row # after) sessionMap =
        sessionRows_loop after
          (AList.update (id_SessionRow row) (metadataOf row) (sessionRows_loop before sessionMap))"
    by (simp only: sessionRows_loop_append sessionRows_loop_step)
  with assms show ?thesis
    by (simp add: sessionRows_loop_other update_conv')
qed

lemma sessionRows_loop_origin:
  assumes "map_of (sessionRows_loop rows []) k = Some m"
  shows "\<exists>row\<in>set rows. id_SessionRow row = k \<and> m = metadataOf row"
  using assms
proof (induction rows arbitrary: m rule: rev_induct)
  case Nil
  then show ?case by simp
next
  case (snoc row rows)
  have step: "sessionRows_loop (rows @ [row]) [] =
              AList.update (id_SessionRow row) (metadataOf row) (sessionRows_loop rows [])"
    by (simp only: sessionRows_loop_append sessionRows_loop_step sessionRows_loop.simps(1))
  show ?case
  proof (cases "id_SessionRow row = k")
    case True
    with snoc.prems step show ?thesis by (simp add: update_conv')
  next
    case False
    with snoc.prems step have "map_of (sessionRows_loop rows []) k = Some m"
      by (simp add: update_conv')
    from snoc.IH [OF this] show ?thesis by auto
  qed
qed

lemma sessionRows_loop_distinct_rows:
  assumes "distinct (map id_SessionRow rows)" and "row \<in> set rows"
  shows "map_of (sessionRows_loop rows sessionMap) (id_SessionRow row) = Some (metadataOf row)"
proof -
  from assms(2) obtain before after where split: "rows = before @ row # after"
    by (auto simp: in_set_conv_decomp)
  with assms(1) have "id_SessionRow row \<notin> id_SessionRow ` set after"
    by auto
  with split show ?thesis by (simp add: sessionRows_loop_last)
qed

subsection \<open>The example machine\<close>

lemma example_world_override:
  "loadOpenCodeMessages (with_override ''/nonexistent'' example_world) []
   = (Inr [paid_entry, free_entry], [example_connection])"
  by code_simp

lemma example_world_broken:
  "loadOpenCodeMessages (with_messages [paid_row, broken_row] example_world) []
   = (Inl (SyntaxError ''Unexpected token''), [example_connection])"
  by code_simp

lemma example_world_opened:
  "openDatabase example_world []
   = (Inr (Some example_database), [example_connection\<lparr>isOpen := True\<rparr>])"
  by code_simp

lemma example_world_sessions:
  "loadOpenCodeSessions example_world []
   = (Inr [(''ses_1'', metadataOf untitled_session), (''ses_2'', metadataOf titled_session)],
      [example_connection])"
  by code_simp

lemma example_world_idle:
  "loadOpenCodeMessages (with_messages [user_row, idle_row] example_world) []
   = (Inr [], [example_connection])"
  by code_simp

lemma example_world_json5:
  "loadOpenCodeMessages (with_messages [user_row, broken_row] example_world) []
   = (Inl (SyntaxError ''Unexpected token''), [example_connection])"
  by code_simp

lemma example_world_uncosted:
  "loadOpenCodeMessages (with_messages [uncosted_row] example_world) []
   = (Inr [], [example_connection])"
  by code_simp

lemma example_world_rows:
  "prepare_all_messages example_world (connection_file example_database) MESSAGE_QUERY
     = Inr [paid_row, user_row, idle_row, free_row]"
  by (simp add: example_world_def)

lemma example_world_parses:
  "JSON_parse example_world (data paid_row) = Inr paid_json"
  "JSON_parse example_world (data user_row) = Inr user_json"
  "JSON_parse example_world (data idle_row) = Inr idle_json"
  "JSON_parse example_world (data free_row) = Inr free_json"
  by code_simp+

lemma example_paid_validated:
  "\<exists>d. assistantMessageDataSchema paid_json = Some d
       \<and> \<not> (is_zero (tokens_input (tokens d)) \<and> is_zero (tokens_output (tokens d)))
       \<and> convertMessageToUsageEntry paid_row d = paid_entry"
  by (simp add: assistantMessageDataSchema_def paid_json_def required_def v_literal_def
      timeSchema_def v_optional_def v_optional_default_def assistantTokensSchema_def
      cacheSchema_def convertMessageToUsageEntry_def paid_entry_def paid_row_def)

subsection \<open>Cost of a loaded entry\<close>

text \<open>
  C1. Every entry the message loader returns is the conversion of a row of the message
  query whose payload parsed and passed the assistant schema, and its \<open>costUSD\<close>
  follows the precedence rule: a cost of the payload that is greater than zero is taken
  over as it is, and any other cost (zero or less) gives \<open>null\<close>.
\<close>

theorem loaded_cost_precedence:
  assumes "fst (loadOpenCodeMessages w conns) = Inr entries" and "e \<in> set entries"
  shows "\<exists>dbPath rows row j d.
           getOpenCodeDbPath w = Inr (Some dbPath)
           \<and> prepare_all_messages w dbPath MESSAGE_QUERY = Inr rows
           \<and> row \<in> set rows
           \<and> JSON_parse w (data row) = Inr j
           \<and> assistantMessageDataSchema j = Some d
           \<and> e = convertMessageToUsageEntry row d
           \<and> (gt_zero (cost d) \<longrightarrow> costUSD e = Some (cost d))
           \<and> (\<not> gt_zero (cost d) \<longrightarrow> costUSD e = None)"
proof -
  from loaded_entry_origin [OF assms]
  obtain dbPath rows row j d where o: "getOpenCodeDbPath w = Inr (Some dbPath)"
    "prepare_all_messages w dbPath MESSAGE_QUERY = Inr rows" "row \<in> set rows"
    "JSON_parse w (data row) = Inr j" "assistantMessageDataSchema j = Some d"
    "e = convertMessageToUsageEntry row d"
    by blast
  from o(6) have "gt_zero (cost d) \<longrightarrow> costUSD e = Some (cost d)"
    and "\<not> gt_zero (cost d) \<longrightarrow> costUSD e = None"
    by (simp_all add: convertMessageToUsageEntry_def)
  with o show ?thesis by blast
qed

theorem loaded_cost_precedence_witness:
  "fst (loadOpenCodeMessages example_world []) = Inr [paid_entry, free_entry]
   \<and> paid_entry \<in> set [paid_entry, free_entry]
   \<and> free_entry \<in> set [paid_entry, free_entry]
   \<and> costUSD paid_entry = Some (Finite (5 / 100))
   \<and> costUSD free_entry = None
   \<and> (\<exists>row j d. JSON_parse example_world (data row) = Inr j
           \<and> assistantMessageDataSchema j = Some d
           \<and> paid_entry = convertMessageToUsageEntry row d
           \<and> gt_zero (cost d) \<and> cost d = Finite (5 / 100))
   \<and> (\<exists>row j d. JSON_parse example_world (data row) = Inr j
           \<and> assistantMessageDataSchema j = Some d
           \<and> free_entry = convertMessageToUsageEntry row d
           \<and> \<not> gt_zero (cost d))"
proof -
  have h1: "fst (loadOpenCodeMessages example_world []) = Inr [paid_entry, free_entry]"
    by (simp add: example_world_messages)
  have h2: "paid_entry \<in> set [paid_entry, free_entry]" by simp
  have h3: "free_entry \<in> set [paid_entry, free_entry]" by simp
  have c1: "costUSD paid_entry = Some (Finite (5 / 100))" by (simp add: paid_entry_def)
  have c2: "costUSD free_entry = None" by (simp add: free_entry_def)
  from loaded_cost_precedence [OF h1 h2] c1
  have a: "\<exists>row j d. JSON_parse example_world (data row) = Inr j
           \<and> assistantMessageDataSchema j = Some d
           \<and> paid_entry = convertMessageToUsageEntry row d
           \<and> gt_zero (cost d) \<and> cost d = Finite (5 / 100)"
    by (metis option.distinct(1) option.inject)
  from loaded_cost_precedence [OF h1 h3] c2
  have b: "\<exists>row j d. JSON_parse example_world (data row) = Inr j
           \<and> assistantMessageDataSchema j = Some d
           \<and> free_entry = convertMessageToUsageEntry row d
           \<and> \<not> gt_zero (cost d)"
    by (metis option.distinct(1))
  from h1 h2 h3 c1 c2 a b show ?thesis by blast
qed

text \<open>
  C10. The \<open>costUSD\<close> of every entry the message loader returns is \<open>null\<close> or a
  number greater than zero, never zero and never negative.
\<close>

theorem loaded_cost_never_zero:
  assumes "fst (loadOpenCodeMessages w conns) = Inr entries" and "e \<in> set entries"
  shows "costUSD e = None \<or> (\<exists>c. costUSD e = Some c \<and> gt_zero c)"
proof -
  from loaded_entry_origin [OF assms]
  obtain row d where "e = convertMessageToUsageEntry row d" by blast
  then show ?thesis by (simp add: convertMessageToUsageEntry_def)
qed

theorem loaded_cost_never_zero_witness:
  "fst (loadOpenCodeMessages example_world []) = Inr [paid_entry, free_entry]
   \<and> paid_entry \<in> set [paid_entry, free_entry]
   \<and> free_entry \<in> set [paid_entry, free_entry]
   \<and> (\<exists>c. costUSD paid_entry = Some c \<and> gt_zero c)
   \<and> costUSD free_entry = None"
proof -
  have h1: "fst (loadOpenCodeMessages example_world []) = Inr [paid_entry, free_entry]"
    by (simp add: example_world_messages)
  have h2: "paid_entry \<in> set [paid_entry, free_entry]" by simp
  have h3: "free_entry \<in> set [paid_entry, free_entry]" by simp
  have c1: "costUSD paid_entry \<noteq> None" by (simp add: paid_entry_def)
  have c2: "costUSD free_entry = None" by (simp add: free_entry_def)
  from loaded_cost_never_zero [OF h1 h2] c1
  have "\<exists>c. costUSD paid_entry = Some c \<and> gt_zero c" by blast
  moreover from loaded_cost_never_zero [OF h1 h3] c2
  have "costUSD free_entry = None" by blast
  ultimately show ?thesis using h1 h2 h3 by blast
qed

subsection \<open>The connection\<close>

text \<open>
  What the \<open>try\<close> and \<open>finally\<close> of the loaders give: when \<open>openDatabase\<close> returns a
  wrapper, its connection was constructed with the read-only flag, and it is closed when
  the loader returns, whatever the outcome, also when the query or \<open>JSON.parse\<close> threw.
\<close>

lemma returned_connection_is_closed:
  assumes "openDatabase w conns = (Inr (Some db), conns1)"
  shows "conns1 = conns @ [\<lparr>filePath = connection_file db,
                            openedBy = (if Bun_defined w then Bun else Node),
                            readonly = True, isOpen = True\<rparr>]
         \<and> snd (loadOpenCodeMessages w conns) =
             conns @ [\<lparr>filePath = connection_file db,
                       openedBy = (if Bun_defined w then Bun else Node),
                       readonly = True, isOpen = False\<rparr>]
         \<and> snd (loadOpenCodeSessions w conns) =
             conns @ [\<lparr>filePath = connection_file db,
                       openedBy = (if Bun_defined w then Bun else Node),
                       readonly = True, isOpen = False\<rparr>]"
proof -
  from openDatabase_connection [OF assms]
  have idx: "connection_index db = length conns"
    and c1: "conns1 = conns @ [\<lparr>filePath = connection_file db,
                            openedBy = (if Bun_defined w then Bun else Node),
                            readonly = True, isOpen = True\<rparr>]"
    by simp_all
  from idx c1 have closed: "close db conns1 =
      conns @ [\<lparr>filePath = connection_file db, openedBy = (if Bun_defined w then Bun else Node),
                readonly = True, isOpen = False\<rparr>]"
    by (simp add: close_last)
  from closed have "snd (loadOpenCodeMessages w conns) =
      conns @ [\<lparr>filePath = connection_file db, openedBy = (if Bun_defined w then Bun else Node),
                readonly = True, isOpen = False\<rparr>]"
    by (simp add: loadOpenCodeMessages_opened [OF assms])
  moreover from closed have "snd (loadOpenCodeSessions w conns) =
      conns @ [\<lparr>filePath = connection_file db, openedBy = (if Bun_defined w then Bun else Node),
                readonly = True, isOpen = False\<rparr>]"
    by (simp add: loadOpenCodeSessions_opened [OF assms])
  ultimately show ?thesis using c1 by blast
qed


lemma with_corrupt_database_messages:
  "loadOpenCodeMessages (with_corrupt_database example_world) []
   = (Inl (SqliteError ''file is not a database''),
      [\<lparr>filePath = ''/home/dev/.local/share/opencode/opencode.db'', openedBy = Node,
        readonly = True, isOpen = True\<rparr>])"
  by code_simp

lemma with_corrupt_database_sessions:
  "loadOpenCodeSessions (with_corrupt_database example_world) []
   = (Inl (SqliteError ''file is not a database''),
      [\<lparr>filePath = ''/home/dev/.local/share/opencode/opencode.db'', openedBy = Node,
        readonly = True, isOpen = True\<rparr>])"
  by code_simp

text \<open>
  C8. The claim asks that the database a loader has opened is opened read-only and is
  closed when the loader returns, on every exit path. The code opens it read-only, and
  closes it on every path through the \<open>try\<close> block, but not on the path where the
  constructor has returned a connection and the pragma that \<open>openSqlite\<close> runs next
  throws: \<open>openDatabase\<close> is called before the \<open>try\<close> block, and \<open>openSqlite\<close> has
  no handler of its own. With a file \<open>opencode.db\<close> that is not a database, each loader
  ends with the exception of the pragma and leaves its read-only connection open.
\<close>

theorem pragma_failure_leaves_connection_open:
  "getOpenCodeDbPath (with_corrupt_database example_world)
     = Inr (Some ''/home/dev/.local/share/opencode/opencode.db'')
   \<and> new_Database (with_corrupt_database example_world) Node
        ''/home/dev/.local/share/opencode/opencode.db'' True = None
   \<and> db_exec (with_corrupt_database example_world)
        ''/home/dev/.local/share/opencode/opencode.db'' ''PRAGMA journal_mode = WAL''
       = Some (SqliteError ''file is not a database'')
   \<and> loadOpenCodeMessages (with_corrupt_database example_world) []
       = (Inl (SqliteError ''file is not a database''),
          [\<lparr>filePath = ''/home/dev/.local/share/opencode/opencode.db'', openedBy = Node,
            readonly = True, isOpen = True\<rparr>])
   \<and> loadOpenCodeSessions (with_corrupt_database example_world) []
       = (Inl (SqliteError ''file is not a database''),
          [\<lparr>filePath = ''/home/dev/.local/share/opencode/opencode.db'', openedBy = Node,
            readonly = True, isOpen = True\<rparr>])"
proof -
  have "getOpenCodeDbPath (with_corrupt_database example_world)
     = Inr (Some ''/home/dev/.local/share/opencode/opencode.db'')"
    by code_simp
  moreover have "new_Database (with_corrupt_database example_world) Node
        ''/home/dev/.local/share/opencode/opencode.db'' True = None"
    by (simp add: with_corrupt_database_def example_world_def)
  moreover have "db_exec (with_corrupt_database example_world)
        ''/home/dev/.local/share/opencode/opencode.db'' ''PRAGMA journal_mode = WAL''
       = Some (SqliteError ''file is not a database'')"
    by (simp add: with_corrupt_database_def)
  ultimately show ?thesis
    using with_corrupt_database_messages with_corrupt_database_sessions by simp
qed

subsection \<open>No data source\<close>

text \<open>
  What holds when the checks report the absence: if the directory check returns false for
  the override (or there is none) and for the default directory, or the file check
  returns false for \<open>opencode.db\<close> in the directory found, each loader returns an
  empty result and opens no connection.
\<close>

lemma reported_absence_loads_nothing:
  assumes "((case env w OPENCODE_CONFIG_DIR_ENV of
               None \<Rightarrow> True
             | Some v \<Rightarrow> trim v = [] \<or> isDirectorySync w (path_resolve w v) = Inr False)
            \<and> isDirectorySync w (path_join w (USER_HOME_DIR w) DEFAULT_OPENCODE_PATH) = Inr False)
           \<or> (\<exists>dir. getOpenCodePath w = Inr (Some dir)
                  \<and> isFileSync w (path_join w dir OPENCODE_DB_FILENAME) = Inr False)"
  shows "loadOpenCodeMessages w conns = (Inr [], conns)
         \<and> loadOpenCodeSessions w conns = (Inr [], conns)"
proof -
  from assms have "getOpenCodeDbPath w = Inr None"
  proof
    assume a: "(case env w OPENCODE_CONFIG_DIR_ENV of
               None \<Rightarrow> True
             | Some v \<Rightarrow> trim v = [] \<or> isDirectorySync w (path_resolve w v) = Inr False)
            \<and> isDirectorySync w (path_join w (USER_HOME_DIR w) DEFAULT_OPENCODE_PATH) = Inr False"
    then have "env w OPENCODE_CONFIG_DIR_ENV = None
           \<or> (\<exists>v. env w OPENCODE_CONFIG_DIR_ENV = Some v
                    \<and> (trim v = [] \<or> isDirectorySync w (path_resolve w v) = Inr False))"
      by (cases "env w OPENCODE_CONFIG_DIR_ENV") simp_all
    with a have "getOpenCodePath w = Inr None"
      using getOpenCodePath_fallback [of w False] by simp
    then show ?thesis by (rule getOpenCodeDbPath_no_directory)
  next
    assume "\<exists>dir. getOpenCodePath w = Inr (Some dir)
                  \<and> isFileSync w (path_join w dir OPENCODE_DB_FILENAME) = Inr False"
    then show ?thesis by (auto intro: getOpenCodeDbPath_no_file)
  qed
  then show ?thesis by (simp add: loaders_absent)
qed

lemma with_misplaced_override_messages:
  "loadOpenCodeMessages (with_misplaced_override example_world) []
   = (Inl (FsError ''ENOTDIR: not a directory, stat''), [])"
  by code_simp

lemma with_misplaced_override_sessions:
  "loadOpenCodeSessions (with_misplaced_override example_world) []
   = (Inl (FsError ''ENOTDIR: not a directory, stat''), [])"
  by code_simp

text \<open>
  C4. The claim asks that a data source that does not exist gives an empty result and
  never an exception. \<open>getOpenCodePath\<close> is documented to return \<open>null\<close> when the
  directory is not found, but it calls the directory check with no handler, and the check
  turns only the error \<open>ENOENT\<close> of \<open>stat\<close> into \<open>false\<close>. With the override set to
  a path below a regular file, nothing exists at the path, at the default directory or at
  the database file; \<open>stat\<close> fails with \<open>ENOTDIR\<close>, and each loader ends with that
  exception instead of an empty result.
\<close>

theorem missing_override_path_raises:
  "env (with_misplaced_override example_world) OPENCODE_CONFIG_DIR_ENV
     = Some ''/etc/hostname/opencode''
   \<and> isDirectorySync (with_misplaced_override example_world)
        (path_resolve (with_misplaced_override example_world) ''/etc/hostname/opencode'')
       = Inl (FsError ''ENOTDIR: not a directory, stat'')
   \<and> isDirectorySync (with_misplaced_override example_world)
        (path_join (with_misplaced_override example_world)
           (USER_HOME_DIR (with_misplaced_override example_world)) DEFAULT_OPENCODE_PATH)
       = Inr False
   \<and> isFileSync (with_misplaced_override example_world)
        ''/home/dev/.local/share/opencode/opencode.db'' = Inr False
   \<and> loadOpenCodeMessages (with_misplaced_override example_world) []
       = (Inl (FsError ''ENOTDIR: not a directory, stat''), [])
   \<and> loadOpenCodeSessions (with_misplaced_override example_world) []
       = (Inl (FsError ''ENOTDIR: not a directory, stat''), [])"
proof -
  have "env (with_misplaced_override example_world) OPENCODE_CONFIG_DIR_ENV
     = Some ''/etc/hostname/opencode''"
    by (simp add: with_misplaced_override_def with_override_def)
  moreover have "isDirectorySync (with_misplaced_override example_world)
        (path_resolve (with_misplaced_override example_world) ''/etc/hostname/opencode'')
       = Inl (FsError ''ENOTDIR: not a directory, stat'')"
    by (simp add: with_misplaced_override_def with_override_def example_world_def)
  moreover have "isDirectorySync (with_misplaced_override example_world)
        (path_join (with_misplaced_override example_world)
           (USER_HOME_DIR (with_misplaced_override example_world)) DEFAULT_OPENCODE_PATH)
       = Inr False"
    by code_simp
  moreover have "isFileSync (with_misplaced_override example_world)
        ''/home/dev/.local/share/opencode/opencode.db'' = Inr False"
    by (simp add: with_misplaced_override_def)
  ultimately show ?thesis
    using with_misplaced_override_messages with_misplaced_override_sessions by simp
qed

text \<open>
  C3, as stated, fails. With the override variable unset, or set to a path that does not
  exist, the loader does not stop: it goes on to the default directory under the home
  directory, and returns the entries of the database it finds there.
\<close>

theorem override_unset_counterexample:
  "env example_world OPENCODE_CONFIG_DIR_ENV = None
   \<and> fst (loadOpenCodeMessages example_world []) = Inr [paid_entry, free_entry]
   \<and> env (with_override ''/nonexistent'' example_world) OPENCODE_CONFIG_DIR_ENV = Some ''/nonexistent''
   \<and> isDirectorySync (with_override ''/nonexistent'' example_world)
        (path_resolve (with_override ''/nonexistent'' example_world) ''/nonexistent'') = Inr False
   \<and> fst (loadOpenCodeMessages (with_override ''/nonexistent'' example_world) [])
        = Inr [paid_entry, free_entry]
   \<and> [paid_entry, free_entry] \<noteq> []"
proof -
  have "env example_world OPENCODE_CONFIG_DIR_ENV = None"
    by (simp add: example_world_def OPENCODE_CONFIG_DIR_ENV_def)
  moreover have "env (with_override ''/nonexistent'' example_world) OPENCODE_CONFIG_DIR_ENV
                   = Some ''/nonexistent''"
    by (simp add: with_override_def)
  moreover have "isDirectorySync (with_override ''/nonexistent'' example_world)
        (path_resolve (with_override ''/nonexistent'' example_world) ''/nonexistent'') = Inr False"
    by (simp add: with_override_def example_world_def)
  ultimately show ?thesis
    by (simp add: example_world_messages example_world_override)
qed

text \<open>
  C3, amended. When the override variable is unset, or is set to a path for which the
  directory check returns false, the loader goes on to the default directory
  \<open>.local/share/opencode\<close> under the home directory: if the check finds that
  directory, it is the data directory \<open>getOpenCodePath\<close> returns; if the check returns
  false for it too, both loaders return an empty result and no error. A directory check
  that throws is not part of this statement.
\<close>

theorem override_falls_back_to_default:
  assumes "env w OPENCODE_CONFIG_DIR_ENV = None
           \<or> (\<exists>v. env w OPENCODE_CONFIG_DIR_ENV = Some v
                   \<and> isDirectorySync w (path_resolve w v) = Inr False)"
    and "isDirectorySync w (path_join w (USER_HOME_DIR w) DEFAULT_OPENCODE_PATH) = Inr isDir"
  shows "getOpenCodePath w =
           Inr (if isDir then Some (path_join w (USER_HOME_DIR w) DEFAULT_OPENCODE_PATH) else None)
         \<and> (\<not> isDir \<longrightarrow> loadOpenCodeMessages w conns = (Inr [], conns)
                          \<and> loadOpenCodeSessions w conns = (Inr [], conns))"
proof -
  from assms(1) have "env w OPENCODE_CONFIG_DIR_ENV = None
           \<or> (\<exists>v. env w OPENCODE_CONFIG_DIR_ENV = Some v
                    \<and> (trim v = [] \<or> isDirectorySync w (path_resolve w v) = Inr False))"
    by blast
  from getOpenCodePath_fallback [OF this assms(2)]
  have p: "getOpenCodePath w =
           Inr (if isDir then Some (path_join w (USER_HOME_DIR w) DEFAULT_OPENCODE_PATH) else None)" .
  then have "\<not> isDir \<longrightarrow> getOpenCodeDbPath w = Inr None"
    by (simp add: getOpenCodeDbPath_no_directory)
  with p show ?thesis by (simp add: loaders_absent)
qed

theorem override_falls_back_to_default_witness:
  "env (with_override ''/nonexistent'' example_world) OPENCODE_CONFIG_DIR_ENV = Some ''/nonexistent''
   \<and> isDirectorySync (with_override ''/nonexistent'' example_world)
        (path_resolve (with_override ''/nonexistent'' example_world) ''/nonexistent'') = Inr False
   \<and> getOpenCodePath (with_override ''/nonexistent'' example_world)
        = Inr (Some ''/home/dev/.local/share/opencode'')
   \<and> env (without_directory example_world) OPENCODE_CONFIG_DIR_ENV = None
   \<and> getOpenCodePath (without_directory example_world) = Inr None
   \<and> loadOpenCodeMessages (without_directory example_world) [] = (Inr [], [])
   \<and> loadOpenCodeSessions (without_directory example_world) [] = (Inr [], [])"
proof -
  let ?w = "with_override ''/nonexistent'' example_world"
  let ?v = "without_directory example_world"
  have h1: "env ?w OPENCODE_CONFIG_DIR_ENV = Some ''/nonexistent''"
    by (simp add: with_override_def)
  have h2: "isDirectorySync ?w (path_resolve ?w ''/nonexistent'') = Inr False"
    by (simp add: with_override_def example_world_def)
  have h3: "isDirectorySync ?w (path_join ?w (USER_HOME_DIR ?w) DEFAULT_OPENCODE_PATH) = Inr True"
    by code_simp
  have h4: "path_join ?w (USER_HOME_DIR ?w) DEFAULT_OPENCODE_PATH = ''/home/dev/.local/share/opencode''"
    by code_simp
  have h5: "env ?v OPENCODE_CONFIG_DIR_ENV = None"
    by (simp add: without_directory_def example_world_def OPENCODE_CONFIG_DIR_ENV_def)
  have h6: "isDirectorySync ?v (path_join ?v (USER_HOME_DIR ?v) DEFAULT_OPENCODE_PATH) = Inr False"
    by (simp add: without_directory_def)
  from h1 h2 have a: "env ?w OPENCODE_CONFIG_DIR_ENV = None
           \<or> (\<exists>v. env ?w OPENCODE_CONFIG_DIR_ENV = Some v
                   \<and> isDirectorySync ?w (path_resolve ?w v) = Inr False)"
    by blast
  from override_falls_back_to_default [OF a h3] h4
  have r1: "getOpenCodePath ?w = Inr (Some ''/home/dev/.local/share/opencode'')"
    by simp
  from h5 have b: "env ?v OPENCODE_CONFIG_DIR_ENV = None
           \<or> (\<exists>x. env ?v OPENCODE_CONFIG_DIR_ENV = Some x
                   \<and> isDirectorySync ?v (path_resolve ?v x) = Inr False)"
    by blast
  from override_falls_back_to_default [OF b h6, of "[]"]
  have r2: "getOpenCodePath ?v = Inr None \<and> loadOpenCodeMessages ?v [] = (Inr [], [])
            \<and> loadOpenCodeSessions ?v [] = (Inr [], [])"
    by simp
  from h1 h2 h5 r1 r2 show ?thesis by blast
qed

subsection \<open>Sessions\<close>

text \<open>
  C9. The session loader returns a map keyed by session id: its keys are the ids of the
  rows, each once, and the metadata under a key carries that id. The metadata comes from
  a row with that id, with the row's parent, project and directory, and with the row's
  title, except that an empty title is replaced by the session id. When the ids of the
  rows are distinct, as the ids of a session table are, every row is in the map under its
  id with that title; in general this holds for every row that no later row with the
  same id overwrites.
\<close>

theorem session_title_rule:
  assumes "openDatabase w conns = (Inr (Some db), conns1)"
    and "prepare_all_sessions w (connection_file db) SESSION_QUERY = Inr rows"
  shows "\<exists>sessionMap.
           fst (loadOpenCodeSessions w conns) = Inr sessionMap
           \<and> distinct (map fst sessionMap)
           \<and> fst ` set sessionMap = id_SessionRow ` set rows
           \<and> (\<forall>k m. map_of sessionMap k = Some m \<longrightarrow>
                 id_Metadata m = k
                 \<and> (\<exists>row\<in>set rows. id_SessionRow row = k
                       \<and> title m = (if title_SessionRow row = [] then id_SessionRow row
                                    else title_SessionRow row)
                       \<and> parentID m = parent_id row \<and> projectID m = project_id row
                       \<and> directory m = directory_SessionRow row))
           \<and> (distinct (map id_SessionRow rows) \<longrightarrow>
                 (\<forall>row\<in>set rows.
                    \<exists>m. map_of sessionMap (id_SessionRow row) = Some m
                      \<and> title m = (if title_SessionRow row = [] then id_SessionRow row
                                   else title_SessionRow row)))
           \<and> (\<forall>before row after.
                 rows = before @ row # after
                 \<and> id_SessionRow row \<notin> id_SessionRow ` set after \<longrightarrow>
                 (\<exists>m. map_of sessionMap (id_SessionRow row) = Some m
                      \<and> title m = (if title_SessionRow row = [] then id_SessionRow row
                                   else title_SessionRow row)))"
proof -
  let ?map = "sessionRows_loop rows []"
  from assms have "fst (loadOpenCodeSessions w conns) = Inr ?map"
    by (simp add: loadOpenCodeSessions_opened)
  moreover have "distinct (map fst ?map)"
    by (rule sessionRows_loop_distinct) simp
  moreover have "fst ` set ?map = id_SessionRow ` set rows"
    by (simp add: sessionRows_loop_keys)
  moreover have "\<forall>k m. map_of ?map k = Some m \<longrightarrow>
                 id_Metadata m = k
                 \<and> (\<exists>row\<in>set rows. id_SessionRow row = k
                       \<and> title m = (if title_SessionRow row = [] then id_SessionRow row
                                    else title_SessionRow row)
                       \<and> parentID m = parent_id row \<and> projectID m = project_id row
                       \<and> directory m = directory_SessionRow row)"
  proof (intro allI impI)
    fix k m
    assume "map_of ?map k = Some m"
    from sessionRows_loop_origin [OF this]
    obtain row where "row \<in> set rows" "id_SessionRow row = k" "m = metadataOf row" by blast
    then show "id_Metadata m = k
                 \<and> (\<exists>row\<in>set rows. id_SessionRow row = k
                       \<and> title m = (if title_SessionRow row = [] then id_SessionRow row
                                    else title_SessionRow row)
                       \<and> parentID m = parent_id row \<and> projectID m = project_id row
                       \<and> directory m = directory_SessionRow row)"
      by (auto simp: metadataOf_def)
  qed
  moreover have "distinct (map id_SessionRow rows) \<longrightarrow>
                 (\<forall>row\<in>set rows.
                    \<exists>m. map_of ?map (id_SessionRow row) = Some m
                      \<and> title m = (if title_SessionRow row = [] then id_SessionRow row
                                   else title_SessionRow row))"
  proof (intro impI ballI)
    fix row
    assume "distinct (map id_SessionRow rows)" and "row \<in> set rows"
    then have "map_of ?map (id_SessionRow row) = Some (metadataOf row)"
      by (rule sessionRows_loop_distinct_rows)
    then show "\<exists>m. map_of ?map (id_SessionRow row) = Some m
                      \<and> title m = (if title_SessionRow row = [] then id_SessionRow row
                                   else title_SessionRow row)"
      by (simp add: metadataOf_def)
  qed
  moreover have "\<forall>before row after.
                 rows = before @ row # after
                 \<and> id_SessionRow row \<notin> id_SessionRow ` set after \<longrightarrow>
                 (\<exists>m. map_of ?map (id_SessionRow row) = Some m
                      \<and> title m = (if title_SessionRow row = [] then id_SessionRow row
                                   else title_SessionRow row))"
  proof (intro allI impI)
    fix before row after
    assume "rows = before @ row # after \<and> id_SessionRow row \<notin> id_SessionRow ` set after"
    then have "map_of ?map (id_SessionRow row) = Some (metadataOf row)"
      by (simp add: sessionRows_loop_last)
    then show "\<exists>m. map_of ?map (id_SessionRow row) = Some m
                      \<and> title m = (if title_SessionRow row = [] then id_SessionRow row
                                   else title_SessionRow row)"
      by (simp add: metadataOf_def)
  qed
  ultimately show ?thesis by blast
qed

theorem session_title_rule_witness:
  "openDatabase example_world []
     = (Inr (Some example_database), [example_connection\<lparr>isOpen := True\<rparr>])
   \<and> prepare_all_sessions example_world (connection_file example_database) SESSION_QUERY
     = Inr [untitled_session, titled_session]
   \<and> distinct (map id_SessionRow [untitled_session, titled_session])
   \<and> title_SessionRow untitled_session = [] \<and> title_SessionRow titled_session \<noteq> []
   \<and> (\<exists>sessionMap.
         fst (loadOpenCodeSessions example_world []) = Inr sessionMap
         \<and> (\<exists>m. map_of sessionMap ''ses_1'' = Some m \<and> title m = ''ses_1'')
         \<and> (\<exists>m. map_of sessionMap ''ses_2'' = Some m \<and> title m = ''Fix the parser''))"
proof -
  have rows: "prepare_all_sessions example_world (connection_file example_database) SESSION_QUERY
     = Inr [untitled_session, titled_session]"
    by (simp add: example_world_def)
  have t: "title_SessionRow untitled_session = [] \<and> title_SessionRow titled_session \<noteq> []"
    by (simp add: untitled_session_def titled_session_def)
  have d: "distinct (map id_SessionRow [untitled_session, titled_session])"
    by (simp add: untitled_session_def titled_session_def)
  from session_title_rule [OF example_world_opened rows] d
  obtain sessionMap where loaded: "fst (loadOpenCodeSessions example_world []) = Inr sessionMap"
    and every: "\<forall>row\<in>set [untitled_session, titled_session].
                    \<exists>m. map_of sessionMap (id_SessionRow row) = Some m
                      \<and> title m = (if title_SessionRow row = [] then id_SessionRow row
                                   else title_SessionRow row)"
    by blast
  from every have "\<exists>m. map_of sessionMap (id_SessionRow untitled_session) = Some m
                      \<and> title m = (if title_SessionRow untitled_session = []
                                   then id_SessionRow untitled_session
                                   else title_SessionRow untitled_session)"
    by simp
  then have a: "\<exists>m. map_of sessionMap ''ses_1'' = Some m \<and> title m = ''ses_1''"
    by (simp add: untitled_session_def)
  from every have "\<exists>m. map_of sessionMap (id_SessionRow titled_session) = Some m
                      \<and> title m = (if title_SessionRow titled_session = []
                                   then id_SessionRow titled_session
                                   else title_SessionRow titled_session)"
    by simp
  then have b: "\<exists>m. map_of sessionMap ''ses_2'' = Some m \<and> title m = ''Fix the parser''"
    by (simp add: titled_session_def)
  from loaded a b rows t d example_world_opened show ?thesis by blast
qed

subsection \<open>Rows that are skipped\<close>

text \<open>
  C5, as stated, fails. A row that passes the schema is not always returned: after a row
  that fails the schema, a valid row with no input and no output tokens is dropped as
  well, and the load returns nothing. Nor does every list of rows load: \<open>JSON.parse\<close>
  is called outside any handler, and a payload it rejects ends the load with its
  exception.
\<close>

theorem valid_row_not_returned_counterexample:
  "JSON_parse example_world (data user_row) = Inr user_json
   \<and> assistantMessageDataSchema user_json = None
   \<and> JSON_parse example_world (data idle_row) = Inr idle_json
   \<and> assistantMessageDataSchema idle_json \<noteq> None
   \<and> fst (loadOpenCodeMessages (with_messages [user_row, idle_row] example_world) []) = Inr []
   \<and> fst (loadOpenCodeMessages (with_messages [user_row, broken_row] example_world) [])
        = Inl (SyntaxError ''Unexpected token'')"
proof -
  have "JSON_parse example_world (data user_row) = Inr user_json" by code_simp
  moreover have "assistantMessageDataSchema user_json = None" by code_simp
  moreover have "JSON_parse example_world (data idle_row) = Inr idle_json" by code_simp
  moreover have "assistantMessageDataSchema idle_json \<noteq> None" by code_simp
  ultimately show ?thesis by (simp add: example_world_idle example_world_json5)
qed

text \<open>
  C5, amended. In a load where \<open>JSON.parse\<close> accepts every payload, a row that fails
  the schema is skipped and the load goes on: the load returns a list, the same list as
  for the rows without the failing ones, and it holds the conversion of every row that
  passes the schema and has an input or output token count other than zero.
\<close>

theorem schema_failure_is_skipped:
  assumes "openDatabase w conns = (Inr (Some db), conns1)"
    and "prepare_all_messages w (connection_file db) MESSAGE_QUERY = Inr rows"
    and "\<forall>row\<in>set rows. \<exists>j. JSON_parse w (data row) = Inr j"
  shows "\<exists>entries.
           fst (loadOpenCodeMessages w conns) = Inr entries
           \<and> messageRows_loop (JSON_parse w)
                (filter (\<lambda>row. \<not> failsSchema (JSON_parse w) row) rows) [] = Inr entries
           \<and> (\<forall>row\<in>set rows. \<forall>j d.
                 JSON_parse w (data row) = Inr j \<and> assistantMessageDataSchema j = Some d
                 \<and> \<not> (is_zero (tokens_input (tokens d)) \<and> is_zero (tokens_output (tokens d)))
                 \<longrightarrow> convertMessageToUsageEntry row d \<in> set entries)"
proof -
  let ?entries = "map (\<lambda>rd. convertMessageToUsageEntry (fst rd) (snd rd))
                    (filter carriesTokens (List.map_filter (validated (JSON_parse w)) rows))"
  from messageRows_loop_parsed [OF assms(3), of "[]"]
  have run: "messageRows_loop (JSON_parse w) rows [] = Inr ?entries" by simp
  with assms(1,2) have "fst (loadOpenCodeMessages w conns) = Inr ?entries"
    by (simp add: loadOpenCodeMessages_opened)
  moreover from run have "messageRows_loop (JSON_parse w)
                (filter (\<lambda>row. \<not> failsSchema (JSON_parse w) row) rows) [] = Inr ?entries"
    by (simp add: messageRows_loop_skip)
  moreover have "\<forall>row\<in>set rows. \<forall>j d.
                 JSON_parse w (data row) = Inr j \<and> assistantMessageDataSchema j = Some d
                 \<and> \<not> (is_zero (tokens_input (tokens d)) \<and> is_zero (tokens_output (tokens d)))
                 \<longrightarrow> convertMessageToUsageEntry row d \<in> set ?entries"
  proof (intro ballI allI impI)
    fix row j d
    assume row: "row \<in> set rows"
      and ok: "JSON_parse w (data row) = Inr j \<and> assistantMessageDataSchema j = Some d
                 \<and> \<not> (is_zero (tokens_input (tokens d)) \<and> is_zero (tokens_output (tokens d)))"
    from row ok have "(row, d) \<in> set (List.map_filter (validated (JSON_parse w)) rows)"
      by (simp add: validated_set)
    moreover from ok have "carriesTokens (row, d)" by (simp add: carriesTokens_def)
    ultimately have "(row, d) \<in> set (filter carriesTokens
                        (List.map_filter (validated (JSON_parse w)) rows))"
      by simp
    then have "(\<lambda>rd. convertMessageToUsageEntry (fst rd) (snd rd)) (row, d) \<in> set ?entries"
      unfolding set_map by (rule imageI)
    then show "convertMessageToUsageEntry row d \<in> set ?entries" by simp
  qed
  ultimately show ?thesis by blast
qed


theorem schema_failure_is_skipped_witness:
  "openDatabase example_world []
     = (Inr (Some example_database), [example_connection\<lparr>isOpen := True\<rparr>])
   \<and> prepare_all_messages example_world (connection_file example_database) MESSAGE_QUERY
     = Inr [paid_row, user_row, idle_row, free_row]
   \<and> JSON_parse example_world (data paid_row) = Inr paid_json
   \<and> JSON_parse example_world (data user_row) = Inr user_json
   \<and> JSON_parse example_world (data idle_row) = Inr idle_json
   \<and> JSON_parse example_world (data free_row) = Inr free_json
   \<and> failsSchema (JSON_parse example_world) user_row
   \<and> (\<exists>entries. fst (loadOpenCodeMessages example_world []) = Inr entries
          \<and> messageRows_loop (JSON_parse example_world) [paid_row, idle_row, free_row] []
               = Inr entries
          \<and> paid_entry \<in> set entries)"
proof -
  have parsed: "\<forall>row\<in>set [paid_row, user_row, idle_row, free_row].
                  \<exists>j. JSON_parse example_world (data row) = Inr j"
    by (simp add: example_world_parses)
  have skip: "failsSchema (JSON_parse example_world) user_row" by code_simp
  have kept: "filter (\<lambda>row. \<not> failsSchema (JSON_parse example_world) row)
                [paid_row, user_row, idle_row, free_row] = [paid_row, idle_row, free_row]"
    by code_simp
  from schema_failure_is_skipped [OF example_world_opened example_world_rows parsed]
  obtain entries where loaded: "fst (loadOpenCodeMessages example_world []) = Inr entries"
    and same: "messageRows_loop (JSON_parse example_world)
                (filter (\<lambda>row. \<not> failsSchema (JSON_parse example_world) row)
                   [paid_row, user_row, idle_row, free_row]) [] = Inr entries"
    and valid: "\<forall>row\<in>set [paid_row, user_row, idle_row, free_row]. \<forall>j d.
                 JSON_parse example_world (data row) = Inr j
                 \<and> assistantMessageDataSchema j = Some d
                 \<and> \<not> (is_zero (tokens_input (tokens d)) \<and> is_zero (tokens_output (tokens d)))
                 \<longrightarrow> convertMessageToUsageEntry row d \<in> set entries"
    by blast
  from example_paid_validated obtain d where d: "assistantMessageDataSchema paid_json = Some d"
    "\<not> (is_zero (tokens_input (tokens d)) \<and> is_zero (tokens_output (tokens d)))"
    "convertMessageToUsageEntry paid_row d = paid_entry"
    by blast
  have "paid_row \<in> set [paid_row, user_row, idle_row, free_row]" by simp
  with valid d example_world_parses(1) have "convertMessageToUsageEntry paid_row d \<in> set entries"
    by blast
  with d(3) have "paid_entry \<in> set entries" by simp
  with loaded same kept skip example_world_opened example_world_rows example_world_parses
  show ?thesis by simp
qed

text \<open>
  C6, as stated, fails. A row with role \<open>assistant\<close> and token counts 5 and 3 whose
  payload has no \<open>cost\<close> does not pass the schema, and is not among the entries
  returned.
\<close>

theorem assistant_row_not_returned_counterexample:
  "prepare_all_messages (with_messages [uncosted_row] example_world)
       ''/home/dev/.local/share/opencode/opencode.db'' MESSAGE_QUERY = Inr [uncosted_row]
   \<and> JSON_parse (with_messages [uncosted_row] example_world) (data uncosted_row)
       = Inr (JObject uncosted_properties)
   \<and> map_of uncosted_properties ''role'' = Some (JString ''assistant'')
   \<and> map_of uncosted_properties ''tokens'' = Some (JObject uncosted_tokens)
   \<and> map_of uncosted_tokens ''input'' = Some (JNumber (Finite 5))
   \<and> map_of uncosted_tokens ''output'' = Some (JNumber (Finite 3))
   \<and> fst (loadOpenCodeMessages (with_messages [uncosted_row] example_world) []) = Inr []"
proof -
  have "prepare_all_messages (with_messages [uncosted_row] example_world)
       ''/home/dev/.local/share/opencode/opencode.db'' MESSAGE_QUERY = Inr [uncosted_row]"
    by (simp add: with_messages_def)
  moreover have "JSON_parse (with_messages [uncosted_row] example_world) (data uncosted_row)
       = Inr (JObject uncosted_properties)"
    by code_simp
  moreover have "map_of uncosted_properties ''role'' = Some (JString ''assistant'')"
    by (simp add: uncosted_properties_def)
  moreover have "map_of uncosted_properties ''tokens'' = Some (JObject uncosted_tokens)"
    by (simp add: uncosted_properties_def)
  moreover have "map_of uncosted_tokens ''input'' = Some (JNumber (Finite 5))"
    by (simp add: uncosted_tokens_def)
  moreover have "map_of uncosted_tokens ''output'' = Some (JNumber (Finite 3))"
    by (simp add: uncosted_tokens_def)
  ultimately show ?thesis by (simp add: example_world_uncosted)
qed

text \<open>
  C6, amended. In a load where \<open>JSON.parse\<close> accepts every payload, the entries
  returned are, in the order of the rows, the conversions of exactly those rows that pass
  the assistant schema and do not have both token counts zero. Every row that passes the
  schema has role \<open>assistant\<close>.
\<close>

theorem loaded_entries_are_token_carrying_assistant_rows:
  assumes "openDatabase w conns = (Inr (Some db), conns1)"
    and "prepare_all_messages w (connection_file db) MESSAGE_QUERY = Inr rows"
    and "\<forall>row\<in>set rows. \<exists>j. JSON_parse w (data row) = Inr j"
  shows "fst (loadOpenCodeMessages w conns) =
           Inr (map (\<lambda>rd. convertMessageToUsageEntry (fst rd) (snd rd))
                  (filter carriesTokens (List.map_filter (validated (JSON_parse w)) rows)))
         \<and> (\<forall>rd\<in>set (List.map_filter (validated (JSON_parse w)) rows).
               fst rd \<in> set rows \<and> role (snd rd) = ''assistant''
               \<and> (\<exists>j kvs. JSON_parse w (data (fst rd)) = Inr j
                      \<and> assistantMessageDataSchema j = Some (snd rd)
                      \<and> object_entries j = Some kvs
                      \<and> map_of kvs ''role'' = Some (JString ''assistant'')))
         \<and> (\<forall>row\<in>set rows. \<forall>j d.
               JSON_parse w (data row) = Inr j \<and> assistantMessageDataSchema j = Some d \<longrightarrow>
               (row, d) \<in> set (List.map_filter (validated (JSON_parse w)) rows)
               \<and> (carriesTokens (row, d) \<longleftrightarrow>
                    \<not> (is_zero (tokens_input (tokens d)) \<and> is_zero (tokens_output (tokens d)))))"
proof (intro conjI)
  from messageRows_loop_parsed [OF assms(3), of "[]"] assms(1,2)
  show "fst (loadOpenCodeMessages w conns) =
           Inr (map (\<lambda>rd. convertMessageToUsageEntry (fst rd) (snd rd))
                  (filter carriesTokens (List.map_filter (validated (JSON_parse w)) rows)))"
    by (simp add: loadOpenCodeMessages_opened)
next
  show "\<forall>rd\<in>set (List.map_filter (validated (JSON_parse w)) rows).
               fst rd \<in> set rows \<and> role (snd rd) = ''assistant''
               \<and> (\<exists>j kvs. JSON_parse w (data (fst rd)) = Inr j
                      \<and> assistantMessageDataSchema j = Some (snd rd)
                      \<and> object_entries j = Some kvs
                      \<and> map_of kvs ''role'' = Some (JString ''assistant''))"
  proof
    fix rd
    assume "rd \<in> set (List.map_filter (validated (JSON_parse w)) rows)"
    then obtain j where j: "fst rd \<in> set rows" "JSON_parse w (data (fst rd)) = Inr j"
      "assistantMessageDataSchema j = Some (snd rd)"
      by (auto simp: validated_set)
    from schema_role [OF j(3)] j
    show "fst rd \<in> set rows \<and> role (snd rd) = ''assistant''
               \<and> (\<exists>j kvs. JSON_parse w (data (fst rd)) = Inr j
                      \<and> assistantMessageDataSchema j = Some (snd rd)
                      \<and> object_entries j = Some kvs
                      \<and> map_of kvs ''role'' = Some (JString ''assistant''))"
      by blast
  qed
next
  show "\<forall>row\<in>set rows. \<forall>j d.
               JSON_parse w (data row) = Inr j \<and> assistantMessageDataSchema j = Some d \<longrightarrow>
               (row, d) \<in> set (List.map_filter (validated (JSON_parse w)) rows)
               \<and> (carriesTokens (row, d) \<longleftrightarrow>
                    \<not> (is_zero (tokens_input (tokens d)) \<and> is_zero (tokens_output (tokens d))))"
    by (simp add: validated_set carriesTokens_def)
qed


theorem loaded_entries_are_token_carrying_assistant_rows_witness:
  "openDatabase example_world []
     = (Inr (Some example_database), [example_connection\<lparr>isOpen := True\<rparr>])
   \<and> prepare_all_messages example_world (connection_file example_database) MESSAGE_QUERY
     = Inr [paid_row, user_row, idle_row, free_row]
   \<and> JSON_parse example_world (data paid_row) = Inr paid_json
   \<and> JSON_parse example_world (data user_row) = Inr user_json
   \<and> JSON_parse example_world (data idle_row) = Inr idle_json
   \<and> JSON_parse example_world (data free_row) = Inr free_json
   \<and> fst (loadOpenCodeMessages example_world []) = Inr [paid_entry, free_entry]
   \<and> map (\<lambda>rd. convertMessageToUsageEntry (fst rd) (snd rd))
        (filter carriesTokens
           (List.map_filter (validated (JSON_parse example_world))
              [paid_row, user_row, idle_row, free_row]))
       = [paid_entry, free_entry]
   \<and> map fst (List.map_filter (validated (JSON_parse example_world))
                 [paid_row, user_row, idle_row, free_row])
       = [paid_row, idle_row, free_row]"
proof -
  have parsed: "\<forall>row\<in>set [paid_row, user_row, idle_row, free_row].
                  \<exists>j. JSON_parse example_world (data row) = Inr j"
    by (simp add: example_world_parses)
  have passing: "map fst (List.map_filter (validated (JSON_parse example_world))
                 [paid_row, user_row, idle_row, free_row])
       = [paid_row, idle_row, free_row]"
    by code_simp
  from loaded_entries_are_token_carrying_assistant_rows
         [OF example_world_opened example_world_rows parsed]
  have "fst (loadOpenCodeMessages example_world []) =
           Inr (map (\<lambda>rd. convertMessageToUsageEntry (fst rd) (snd rd))
                  (filter carriesTokens
                     (List.map_filter (validated (JSON_parse example_world))
                        [paid_row, user_row, idle_row, free_row])))"
    by blast
  then have "map (\<lambda>rd. convertMessageToUsageEntry (fst rd) (snd rd))
        (filter carriesTokens
           (List.map_filter (validated (JSON_parse example_world))
              [paid_row, user_row, idle_row, free_row]))
       = [paid_entry, free_entry]"
    by (simp add: example_world_messages)
  with passing example_world_opened example_world_rows example_world_parses example_world_messages
  show ?thesis by simp
qed

end
